theory Spec2Isabelle
  imports Complex_Main
begin

section \<open>Strings\<close>

text \<open>
  Python strings are sequences of Unicode code points, and most literals of the program are
  Chinese, so a string is modelled as the list of its code points. A literal of the source is
  given by its code points, with a translation in the comment next to it.
\<close>

type_synonym ustr = "nat list"

definition ascii :: "string \<Rightarrow> ustr" where
  "ascii s = map of_char s"

text \<open>\<^verbatim>\<open>str.startswith\<close>.\<close>

definition startswith :: "'a list \<Rightarrow> 'a list \<Rightarrow> bool" where
  "startswith s p = (take (length p) s = p)"

section \<open>Canvas size (core.py, \<^verbatim>\<open>_calculate_canvas_size\<close>)\<close>

text \<open>
  \<^verbatim>\<open>ratio = CONFIGS.style.aspect_ratio\<close> is the function's only input; the configuration
  object is not part of the sources, so the ratio is the argument of the model.
\<close>

definition calculate_canvas_size :: "string \<Rightarrow> int \<times> int" where
  "calculate_canvas_size ratio =
     (let height = (if ratio = ''5:4'' then 2048
                    else if ratio = ''16:9'' then 1440
                    else 854)
      in (2560, height))"

section \<open>Keyboard injection of the cut step (core.py, \<^verbatim>\<open>generate_image\<close>, lines 536-587)\<close>

datatype key = Ctrl | Cmd | Shift | Home | End | Enter | Char char

datatype kbd = Press key | Release key | Pause rat

text \<open>
  The keystrokes sent for a cut mode on a platform (\<^verbatim>\<open>sys.platform\<close>), in order;
  \<open>Pause\<close> is the \<^verbatim>\<open>time.sleep(0.01)\<close> between selecting and cutting.
\<close>

definition cut_keys :: "string \<Rightarrow> string \<Rightarrow> kbd list" where
  "cut_keys platform cut_mode =
     (if cut_mode = ''direct'' then
        [Press Ctrl, Press (Char CHR ''x''), Release (Char CHR ''x''), Release Ctrl]
      else if cut_mode = ''single_line'' then
        (if startswith platform ''win'' then
           [Press End, Release End,
            Press Shift, Press Home, Release Home, Release Shift,
            Pause (1 / 100),
            Press Ctrl, Press (Char CHR ''x''), Release (Char CHR ''x''), Release Ctrl]
         else
           [Press Shift, Press Home, Release Home, Release Shift,
            Pause (1 / 100),
            Press Cmd, Press (Char CHR ''x''), Release (Char CHR ''x''), Release Cmd])
      else
        (if startswith platform ''win'' then
           [Press Ctrl, Press (Char CHR ''a''), Release (Char CHR ''a''),
            Press (Char CHR ''x''), Release (Char CHR ''x''), Release Ctrl]
         else
           [Press Cmd, Press (Char CHR ''a''), Release (Char CHR ''a''),
            Press (Char CHR ''x''), Release (Char CHR ''x''), Release Cmd]))"

section \<open>Paths and files (load_utils.py)\<close>

text \<open>\<^verbatim>\<open>str(n)\<close> for an integer: its decimal digits, with a minus sign when negative.\<close>

fun digits :: "nat \<Rightarrow> ustr" where
  "digits n = (if n < 10 then [48 + n] else digits (n div 10) @ [48 + n mod 10])"

declare digits.simps [simp del]

definition str_int :: "int \<Rightarrow> ustr" where
  "str_int i = (if i < 0 then 45 # digits (nat (- i)) else digits (nat i))"

text \<open>
  What a path names on disk. \<open>ImageFile im\<close> is a file that
  \<^verbatim>\<open>Image.open(path).convert("RGBA")\<close> decodes to \<open>im\<close>, \<open>FontFile\<close> one that
  \<^verbatim>\<open>ImageFont.truetype\<close> accepts, \<open>OtherFile\<close> any other file; a path with no entry does
  not exist.
\<close>

datatype rgba = RGBA nat nat nat nat

datatype pixels = Solid rgba | Bitmap nat | Resampled pixels

record image =
  width :: int
  height :: int
  pixels :: pixels

datatype disk_file = ImageFile image | FontFile | OtherFile

text \<open>
  The surroundings of the loaders. \<^verbatim>\<open>get_resource_path\<close> and \<^verbatim>\<open>get_font_path\<close> come from
  \<^verbatim>\<open>path_utils\<close> and the scale from \<^verbatim>\<open>CONFIGS.current_character.get("scale", 1.0)\<close>,
  neither of which is in the sources, and \<^verbatim>\<open>os.path.join\<close> depends on the platform: all are
  taken as given. Python computes the scale and the resize ratios in binary floating point;
  they are rationals here, so the heights of resized images are exact where Python rounds.
\<close>

record env =
  files :: "ustr \<rightharpoonup> disk_file"
  get_resource_path :: "ustr \<Rightarrow> ustr"
  get_font_path :: "ustr \<Rightarrow> ustr"
  path_join :: "ustr list \<Rightarrow> ustr"
  character_scale :: rat

definition path_exists :: "env \<Rightarrow> ustr \<Rightarrow> bool" where
  "path_exists e p = (files e p \<noteq> None)"

definition supported_formats :: "ustr list" where
  "supported_formats =
     map ascii [''.png'', ''.jpg'', ''.jpeg'', ''.bmp'', ''.gif'', ''.webp'']"

definition format_path :: "env \<Rightarrow> ustr \<Rightarrow> ustr \<Rightarrow> ustr \<Rightarrow> ustr" where
  "format_path e base_name sub_dir ext =
     (if sub_dir \<noteq> [] then
        get_resource_path e (path_join e [ascii ''assets'', sub_dir, base_name @ ext])
      else get_resource_path e (base_name @ ext))"

fun first_existing :: "env \<Rightarrow> ustr \<Rightarrow> ustr \<Rightarrow> bool \<Rightarrow> ustr list \<Rightarrow> ustr option" where
  "first_existing e base_name sub_dir with_ext [] = None"
| "first_existing e base_name sub_dir with_ext (ext # exts) =
     (let path = format_path e base_name sub_dir ext
      in if path_exists e path then
           Some (if with_ext then path else take (length path - length ext) path)
         else first_existing e base_name sub_dir with_ext exts)"

definition get_image_path :: "env \<Rightarrow> ustr \<Rightarrow> ustr \<Rightarrow> bool \<Rightarrow> ustr" where
  "get_image_path e base_name sub_dir with_ext =
     (case first_existing e base_name sub_dir with_ext supported_formats of
        Some path \<Rightarrow> path
      | None \<Rightarrow> format_path e base_name sub_dir (ascii ''.png''))"

definition get_background_path :: "env \<Rightarrow> ustr \<Rightarrow> ustr" where
  "get_background_path e background_name =
     get_image_path e background_name (ascii ''background'') True"

definition get_character_path :: "env \<Rightarrow> ustr \<Rightarrow> int \<Rightarrow> ustr" where
  "get_character_path e character_name emotion_index =
     get_image_path e
       (character_name @ ascii '' ('' @ str_int emotion_index @ ascii '')'')
       (path_join e [ascii ''chara'', character_name]) True"

section \<open>Images, fonts and the four caches (load_utils.py)\<close>

text \<open>
  \<^verbatim>\<open>Image.new("RGBA", size, color)\<close> fills the image with one colour; a colour given with
  three components gets alpha 255. \<^verbatim>\<open>resize\<close> makes a new image of the given size; the
  resampling of a one-colour image has that colour again.
\<close>

datatype color = Color3 nat nat nat | Color4 nat nat nat nat

fun ink :: "color \<Rightarrow> rgba" where
  "ink (Color3 r g b) = RGBA r g b 255"
| "ink (Color4 r g b a) = RGBA r g b a"

definition image_new :: "int \<times> int \<Rightarrow> color \<Rightarrow> image" where
  "image_new sz color = \<lparr>width = fst sz, height = snd sz, pixels = Solid (ink color)\<rparr>"

fun resample :: "pixels \<Rightarrow> pixels" where
  "resample (Solid c) = Solid c"
| "resample p = Resampled p"

definition resize :: "image \<Rightarrow> int \<times> int \<Rightarrow> image" where
  "resize img sz = \<lparr>width = fst sz, height = snd sz, pixels = resample (pixels img)\<rparr>"

text \<open>\<^verbatim>\<open>int(x)\<close> truncates towards zero.\<close>

definition py_int :: "rat \<Rightarrow> int" where
  "py_int x = (if 0 \<le> x then \<lfloor>x\<rfloor> else \<lceil>x\<rceil>)"

datatype error = FileNotFoundError | OSError | ZeroDivisionError | UnidentifiedImageError

record font =
  font_file :: ustr
  font_size :: int

datatype obj = ImageObj image | FontObj font

text \<open>
  Python hands objects around by reference, and the claims about copies are claims about
  which references are shared. So the objects live in a store, a list indexed by address,
  and a cache maps a key to the address of the object it keeps. A new object gets the next
  address; \<^verbatim>\<open>.copy()\<close> makes a new object with the contents of the old one.
\<close>

record caches =
  heap :: "obj list"
  font_cache :: "ustr \<rightharpoonup> nat"
  background_cache :: "ustr \<rightharpoonup> nat"
  character_cache :: "ustr \<rightharpoonup> nat"
  general_image_cache :: "ustr \<rightharpoonup> nat"

definition alloc :: "obj \<Rightarrow> caches \<Rightarrow> nat \<times> caches" where
  "alloc v st = (length (heap st), st\<lparr>heap := heap st @ [v]\<rparr>)"

definition copy_obj :: "nat \<Rightarrow> caches \<Rightarrow> nat \<times> caches" where
  "copy_obj a st = alloc (heap st ! a) st"

definition image_open :: "env \<Rightarrow> ustr \<Rightarrow> error + image" where
  "image_open e path =
     (case files e path of
        None \<Rightarrow> Inl FileNotFoundError
      | Some (ImageFile img) \<Rightarrow> Inr img
      | Some _ \<Rightarrow> Inl UnidentifiedImageError)"

definition truetype :: "env \<Rightarrow> ustr \<Rightarrow> int \<Rightarrow> error + font" where
  "truetype e path sz =
     (case files e path of
        Some FontFile \<Rightarrow> Inr \<lparr>font_file = path, font_size = sz\<rparr>
      | _ \<Rightarrow> Inl OSError)"

text \<open>\<^verbatim>\<open>load_font_cached\<close>: the cached font object itself is returned.\<close>

definition load_font_cached :: "env \<Rightarrow> ustr \<Rightarrow> int \<Rightarrow> caches \<Rightarrow> (error + nat) \<times> caches" where
  "load_font_cached e font_name sz st =
     (let cache_key = font_name @ ascii ''_'' @ str_int sz in
      case font_cache st cache_key of
        Some a \<Rightarrow> (Inr a, st)
      | None \<Rightarrow>
          (let font_path = get_font_path e font_name in
           if path_exists e font_path then
             (case truetype e font_path sz of
                Inr f \<Rightarrow>
                  (let (a, st1) = alloc (FontObj f) st;
                       st2 = st1\<lparr>font_cache := (font_cache st1)(cache_key \<mapsto> a)\<rparr>
                   in (Inr a, st2))
              | Inl _ \<Rightarrow>
                  (case truetype e font_path sz of
                     Inr f \<Rightarrow> (let (a, st1) = alloc (FontObj f) st in (Inr a, st1))
                   | Inl err \<Rightarrow> (Inl err, st)))
           else
             (case truetype e font_path sz of
                Inr f \<Rightarrow> (let (a, st1) = alloc (FontObj f) st in (Inr a, st1))
              | Inl err \<Rightarrow> (Inl err, st))))"

text \<open>\<^verbatim>\<open>load_image_cached\<close>: a missing file raises; a hit or a fresh decode returns a copy.\<close>

definition load_image_cached :: "env \<Rightarrow> ustr \<Rightarrow> caches \<Rightarrow> (error + nat) \<times> caches" where
  "load_image_cached e image_path st =
     (let cache_key = image_path in
      case general_image_cache st cache_key of
        Some a \<Rightarrow> (let (c, st1) = copy_obj a st in (Inr c, st1))
      | None \<Rightarrow>
          (if image_path \<noteq> [] \<and> path_exists e image_path then
             (case image_open e image_path of
                Inl err \<Rightarrow> (Inl err, st)
              | Inr img \<Rightarrow>
                  (let (a, st1) = alloc (ImageObj img) st;
                       st2 = st1\<lparr>general_image_cache := (general_image_cache st1)(cache_key \<mapsto> a)\<rparr>;
                       (c, st3) = copy_obj a st2
                   in (Inr c, st3)))
           else (Inl FileNotFoundError, st)))"

text \<open>The scaling to width 2560 that \<^verbatim>\<open>load_background_safe\<close> applies in both branches.\<close>

definition to_target_width :: "image \<Rightarrow> error + image" where
  "to_target_width img =
     (let target_width = 2560 in
      if width img \<noteq> target_width then
        (if width img = 0 then Inl ZeroDivisionError
         else
           (let width_ratio = of_int target_width / of_int (width img);
                new_height = py_int (of_int (height img) * width_ratio)
            in Inr (resize img (target_width, new_height))))
      else Inr img)"

definition load_background_safe ::
  "env \<Rightarrow> ustr \<Rightarrow> int \<times> int \<Rightarrow> color \<Rightarrow> caches \<Rightarrow> (error + nat) \<times> caches" where
  "load_background_safe e background_name default_size default_color st =
     (let background_path = get_background_path e background_name;
          cache_key = background_path;
          attempt =
            (case background_cache st cache_key of
               Some a \<Rightarrow> Inr (a, st)
             | None \<Rightarrow>
                 (if path_exists e background_path then
                    (case image_open e background_path of
                       Inl err \<Rightarrow> Inl err
                     | Inr img0 \<Rightarrow>
                         (case to_target_width img0 of
                            Inl err \<Rightarrow> Inl err
                          | Inr img \<Rightarrow>
                              (let (a, st1) = alloc (ImageObj img) st
                               in Inr (a, st1\<lparr>background_cache :=
                                                (background_cache st1)(cache_key \<mapsto> a)\<rparr>))))
                  else Inl FileNotFoundError))
      in case attempt of
           Inr (a, st1) \<Rightarrow> (let (c, st2) = copy_obj a st1 in (Inr c, st2))
         | Inl FileNotFoundError \<Rightarrow>
             (case to_target_width (image_new default_size default_color) of
                Inl err \<Rightarrow> (Inl err, st)
              | Inr default_img \<Rightarrow> (let (c, st1) = alloc (ImageObj default_img) st in (Inr c, st1)))
         | Inl err \<Rightarrow> (Inl err, st))"

text \<open>\<^verbatim>\<open>str.rsplit('.', 1)[0]\<close>: the part before the last dot, the whole string without one.\<close>

definition rsplit_dot_head :: "ustr \<Rightarrow> ustr" where
  "rsplit_dot_head s =
     (if 46 \<in> set s then rev (tl (dropWhile (\<lambda>c. c \<noteq> 46) (rev s))) else s)"

definition load_character_safe ::
  "env \<Rightarrow> ustr \<Rightarrow> int \<Rightarrow> int \<times> int \<Rightarrow> color \<Rightarrow> caches \<Rightarrow> (error + nat) \<times> caches" where
  "load_character_safe e character_name emotion_index default_size default_color st =
     (let character_path = get_character_path e character_name emotion_index;
          cache_key = rsplit_dot_head character_path;
          attempt =
            (case character_cache st cache_key of
               Some a \<Rightarrow> Inr (a, st)
             | None \<Rightarrow>
                 (if path_exists e character_path then
                    (case image_open e character_path of
                       Inl err \<Rightarrow> Inl err
                     | Inr img0 \<Rightarrow>
                         (let scale = character_scale e;
                              img = (if scale \<noteq> 1 then
                                       resize img0 (py_int (of_int (width img0) * scale),
                                                    py_int (of_int (height img0) * scale))
                                     else img0);
                              (a, st1) = alloc (ImageObj img) st
                          in Inr (a, st1\<lparr>character_cache :=
                                           (character_cache st1)(cache_key \<mapsto> a)\<rparr>)))
                  else Inl FileNotFoundError))
      in case attempt of
           Inr (a, st1) \<Rightarrow> (let (c, st2) = copy_obj a st1 in (Inr c, st2))
         | Inl FileNotFoundError \<Rightarrow>
             (let (c, st1) = alloc (ImageObj (image_new default_size default_color)) st
              in (Inr c, st1))
         | Inl err \<Rightarrow> (Inl err, st))"

text \<open>The default arguments of the two safe loaders.\<close>

definition default_size :: "int \<times> int" where
  "default_size = (800, 600)"

definition background_default_color :: color where
  "background_default_color = Color3 100 100 200"

definition character_default_color :: color where
  "character_default_color = Color4 0 0 0 0"

text \<open>\<^verbatim>\<open>clear_cache(cache_type)\<close>: four independent tests, each clearing one dictionary.\<close>

definition clear_cache :: "string \<Rightarrow> caches \<Rightarrow> caches" where
  "clear_cache cache_type st =
     (let st1 = (if cache_type \<in> {''font'', ''all''} then st\<lparr>font_cache := Map.empty\<rparr> else st);
          st2 = (if cache_type \<in> {''background'', ''all''}
                 then st1\<lparr>background_cache := Map.empty\<rparr> else st1);
          st3 = (if cache_type \<in> {''character'', ''all''}
                 then st2\<lparr>character_cache := Map.empty\<rparr> else st2);
          st4 = (if cache_type \<in> {''image'', ''all''}
                 then st3\<lparr>general_image_cache := Map.empty\<rparr> else st3)
      in st4)"

section \<open>Cached masters, valid references and mutation\<close>

text \<open>
  The addresses the caches hold (the cached masters), the condition that each of them names
  an object of the store, and the mutation of the object at an address.
\<close>

definition masters :: "caches \<Rightarrow> nat set" where
  "masters st =
     ran (font_cache st) \<union> ran (background_cache st) \<union>
     ran (character_cache st) \<union> ran (general_image_cache st)"

definition valid_refs :: "caches \<Rightarrow> bool" where
  "valid_refs st = (\<forall>a \<in> masters st. a < length (heap st))"

definition mutate :: "nat \<Rightarrow> obj \<Rightarrow> caches \<Rightarrow> caches" where
  "mutate a v st = st\<lparr>heap := (heap st)[a := v]\<rparr>"

text \<open>
  What a successful image read does to the store: the returned address is new, no cache
  holds it, the old objects are untouched, and the caches gain at most new addresses.
\<close>

definition fresh_result :: "caches \<Rightarrow> nat \<Rightarrow> caches \<Rightarrow> bool" where
  "fresh_result st c st' \<longleftrightarrow>
     length (heap st) \<le> c \<and> c < length (heap st') \<and> c \<notin> masters st' \<and> valid_refs st' \<and>
     take (length (heap st)) (heap st') = heap st \<and>
     masters st' \<subseteq> masters st \<union> {a. length (heap st) \<le> a}"

text \<open>The three image reads, so that a statement can range over them.\<close>

datatype image_read =
  General ustr
  | Background ustr "int \<times> int" color
  | Character ustr int "int \<times> int" color

fun read_image :: "env \<Rightarrow> image_read \<Rightarrow> caches \<Rightarrow> (error + nat) \<times> caches" where
  "read_image e (General image_path) st = load_image_cached e image_path st"
| "read_image e (Background background_name sz c) st =
     load_background_safe e background_name sz c st"
| "read_image e (Character character_name emotion_index sz c) st =
     load_character_safe e character_name emotion_index sz c st"

fun cached_master :: "env \<Rightarrow> image_read \<Rightarrow> caches \<Rightarrow> nat option" where
  "cached_master e (General image_path) st = general_image_cache st image_path"
| "cached_master e (Background background_name sz c) st =
     background_cache st (get_background_path e background_name)"
| "cached_master e (Character character_name emotion_index sz c) st =
     character_cache st (rsplit_dot_head (get_character_path e character_name emotion_index))"

text \<open>Concrete surroundings for the examples: paths joined with a slash, an empty disk.\<close>

fun join_slash :: "ustr list \<Rightarrow> ustr" where
  "join_slash [] = []"
| "join_slash [p] = p"
| "join_slash (p # ps) = p @ [47] @ join_slash ps"

definition empty_disk :: env where
  "empty_disk =
     \<lparr>files = Map.empty, get_resource_path = (\<lambda>p. p), get_font_path = (\<lambda>n. n),
      path_join = join_slash, character_scale = 1\<rparr>"

definition font_disk :: env where
  "font_disk = empty_disk\<lparr>files := [ascii ''font3'' \<mapsto> FontFile]\<rparr>"

definition no_caches :: caches where
  "no_caches =
     \<lparr>heap = [], font_cache = Map.empty, background_cache = Map.empty,
      character_cache = Map.empty, general_image_cache = Map.empty\<rparr>"

definition picture :: image where
  "picture = \<lparr>width = 4, height = 3, pixels = Bitmap 7\<rparr>"

definition picture_disk :: env where
  "picture_disk = empty_disk\<lparr>files := [ascii ''a.png'' \<mapsto> ImageFile picture]\<rparr>"

definition picture_read_once :: caches where
  "picture_read_once =
     \<lparr>heap = [ImageObj picture, ImageObj picture], font_cache = Map.empty,
      background_cache = Map.empty, character_cache = Map.empty,
      general_image_cache = [ascii ''a.png'' \<mapsto> 0]\<rparr>"

definition picture_read_twice :: caches where
  "picture_read_twice =
     picture_read_once\<lparr>heap := [ImageObj picture, ImageObj picture, ImageObj picture]\<rparr>"

definition background_placeholder :: image where
  "background_placeholder =
     \<lparr>width = 2560, height = 1920, pixels = Solid (RGBA 100 100 200 255)\<rparr>"

definition character_placeholder :: image where
  "character_placeholder = \<lparr>width = 800, height = 600, pixels = Solid (RGBA 0 0 0 0)\<rparr>"

section \<open>Python values, truth and string operations\<close>

text \<open>
  The values \<^verbatim>\<open>SentimentAnalyzer.initialize\<close> returns, and Python's truth test on them:
  \<^verbatim>\<open>None\<close>, \<^verbatim>\<open>False\<close> and the empty string and tuple are false, every other value is
  true, a non-empty tuple whatever it holds.
\<close>

datatype pyval = PNone | PBool bool | PStr ustr | PExc ustr | PTuple "pyval list"

fun truthy :: "pyval \<Rightarrow> bool" where
  "truthy PNone = False"
| "truthy (PBool b) = b"
| "truthy (PStr s) = (s \<noteq> [])"
| "truthy (PExc e) = True"
| "truthy (PTuple vs) = (vs \<noteq> [])"

text \<open>\<^verbatim>\<open>sub in s\<close> on strings.\<close>

fun str_in :: "ustr \<Rightarrow> ustr \<Rightarrow> bool" where
  "str_in sub [] = (sub = [])"
| "str_in sub (c # s) = (startswith (c # s) sub \<or> str_in sub s)"

text \<open>\<^verbatim>\<open>str.isspace\<close> on one code point, and \<^verbatim>\<open>str.strip()\<close>.\<close>

definition isspace :: "nat \<Rightarrow> bool" where
  "isspace c \<longleftrightarrow>
     (9 \<le> c \<and> c \<le> 13) \<or> (28 \<le> c \<and> c \<le> 32) \<or> c = 133 \<or> c = 160 \<or> c = 5760 \<or>
     (8192 \<le> c \<and> c \<le> 8202) \<or> c = 8232 \<or> c = 8233 \<or> c = 8239 \<or> c = 8287 \<or> c = 12288"

definition strip :: "ustr \<Rightarrow> ustr" where
  "strip s = rev (dropWhile isspace (rev (dropWhile isspace s)))"

section \<open>What the core does to the outside\<close>

text \<open>
  Every call on a collaborator is recorded, in order: the status and GUI callbacks, the saving
  of the settings, the requests to the chat backend, the clipboard, the keyboard, the sleeps,
  the layer cache of the renderer (\<^verbatim>\<open>image_processor.clear_cache\<close>), the preview and the
  composition.
\<close>

datatype event =
  Status ustr
  | Gui bool bool bool
  | SaveSettings
  | TestRequest ustr
  | Request ustr ustr
  | ClearClipboard
  | Keys kbd
  | Sleep rat
  | ReadClipboard
  | ClearLayerCache
  | Preview
  | Compose ustr "image option"
  | CopyImage "nat list"
  | HasImage

section \<open>The sentiment client (utils/sentiment_analyzer.py)\<close>

text \<open>
  The chat backend and what Python and the configuration supply. \<open>test_reply\<close> is the answer
  to the connection test for a model name and \<open>chat\<close> the answer to a system prompt and a user
  message: \<open>Inl\<close> an exception with its text, \<open>Inr\<close> the content of the first choice, which
  may be \<^verbatim>\<open>None\<close>. \<^verbatim>\<open>str.lower\<close> and the word characters of \<^verbatim>\<open>\w\<close> are those of the
  Unicode database; \<open>emotion_list\<close> is \<^verbatim>\<open>CONFIGS.emotion_list\<close> and \<open>rule_prompt\<close> the prompt
  built from it.
\<close>

record backend =
  test_reply :: "ustr \<Rightarrow> ustr + ustr option"
  chat :: "ustr \<Rightarrow> ustr \<Rightarrow> ustr + ustr option"
  str_lower :: "ustr \<Rightarrow> ustr"
  word_char :: "nat \<Rightarrow> bool"
  emotion_list :: "ustr list"
  rule_prompt :: ustr

type_synonym config = "(string \<times> ustr) list"

record analyzer =
  is_initialized :: bool
  current_client :: "ustr option"
  selected_emotion :: "ustr option"

text \<open>\<^verbatim>\<open>AIClientManager._test_connection\<close>: a pair in both branches.\<close>

definition test_connection :: "backend \<Rightarrow> ustr \<Rightarrow> (pyval \<times> pyval) \<times> event list" where
  "test_connection b model_name =
     (case test_reply b model_name of
        Inr content \<Rightarrow> ((PBool (content \<noteq> None), PStr []), [TestRequest model_name])
      | Inl e \<Rightarrow> ((PBool False, PExc e), [TestRequest model_name]))"

definition initialize_client ::
  "backend \<Rightarrow> ustr \<Rightarrow> config \<Rightarrow> analyzer \<Rightarrow> (pyval \<times> pyval) \<times> analyzer \<times> event list" where
  "initialize_client b client_type config a =
     (let a1 = a\<lparr>current_client := Some client_type\<rparr>;
          (r, evs) = test_connection b (case map_of config ''model'' of Some m \<Rightarrow> m | None \<Rightarrow> [])
      in (r, a1, evs))"

text \<open>
  \<^verbatim>\<open>_send_request_with_prompt(message, custom_prompt)\<close>: the stripped content, or the
  exception raised again; \<^verbatim>\<open>None\<close> as content has no \<^verbatim>\<open>strip\<close> and raises too.
\<close>

definition attribute_error :: ustr where
  "attribute_error = ascii ''AttributeError''"

definition send_request_with_prompt ::
  "backend \<Rightarrow> ustr \<Rightarrow> ustr \<Rightarrow> (ustr + ustr) \<times> event list" where
  "send_request_with_prompt b message prompt =
     (case chat b prompt message of
        Inl e \<Rightarrow> (Inl e, [Request prompt message])
      | Inr None \<Rightarrow> (Inl attribute_error, [Request prompt message])
      | Inr (Some content) \<Rightarrow> (Inr (strip content), [Request prompt message]))"

definition please_reply :: ustr where
  \<comment> \<open>the user message of \<^verbatim>\<open>_send_request\<close>, "please reply anything"\<close>
  "please_reply = [35831, 20219, 24847, 22238, 22797]"

definition send_request :: "backend \<Rightarrow> ustr \<Rightarrow> (ustr + ustr) \<times> event list" where
  "send_request b message = send_request_with_prompt b please_reply message"

text \<open>
  \<^verbatim>\<open>SentimentAnalyzer.initialize\<close>. It returns the pair \<^verbatim>\<open>(self.is_initialized, "")\<close> after
  the handshake, the pair \<^verbatim>\<open>(False, error_msg)\<close> when the client did not connect, and the
  plain \<^verbatim>\<open>False\<close> only from its exception handler.
\<close>

definition initialize ::
  "backend \<Rightarrow> ustr \<Rightarrow> config \<Rightarrow> analyzer \<Rightarrow> pyval \<times> analyzer \<times> event list" where
  "initialize b client_type config a =
     (let ((success, error_msg), a1, evs1) = initialize_client b client_type config a in
      if truthy success then
        (case send_request b (rule_prompt b) of
           (Inl e, evs2) \<Rightarrow> (PBool False, a1\<lparr>is_initialized := False\<rparr>, evs1 @ evs2)
         | (Inr response, evs2) \<Rightarrow>
             (let confirmation_keywords = emotion_list b;
                  response_lower = str_lower b response;
                  a2 = a1\<lparr>is_initialized :=
                            list_ex (\<lambda>keyword. str_in keyword response_lower)
                              confirmation_keywords\<rparr>
              in (PTuple [PBool (is_initialized a2), PStr []], a2, evs1 @ evs2)))
      else (PTuple [PBool False, error_msg], a1, evs1))"

text \<open>\<^verbatim>\<open>_extract_emotion\<close> and \<^verbatim>\<open>analyze_sentiment\<close>.\<close>

definition extract_emotion :: "backend \<Rightarrow> ustr \<Rightarrow> ustr option" where
  "extract_emotion b response =
     (let cleaned_response =
            filter (\<lambda>c. word_char b c \<or> (19968 \<le> c \<and> c \<le> 40959)) response
      in if cleaned_response \<in> set (emotion_list b) then Some cleaned_response else None)"

definition analyze_sentiment ::
  "backend \<Rightarrow> ustr \<Rightarrow> analyzer \<Rightarrow> ustr option \<times> analyzer \<times> event list" where
  "analyze_sentiment b text a =
     (if current_client a = None \<or> current_client a = Some [] then (None, a, [])
      else
        (case send_request_with_prompt b text (rule_prompt b) of
           (Inl e, evs) \<Rightarrow> (None, a, evs)
         | (Inr response, evs) \<Rightarrow>
             (let a1 = a\<lparr>selected_emotion := extract_emotion b response\<rparr>
              in (if selected_emotion a1 \<noteq> None \<and> selected_emotion a1 \<noteq> Some []
                  then selected_emotion a1 else None, a1, evs))))"

section \<open>The core (core.py)\<close>

subsection \<open>Messages\<close>

definition msg_not_whitelisted :: ustr where
  \<comment> \<open>"the foreground application is not in the whitelist"\<close>
  "msg_not_whitelisted = [21069, 21488, 24212, 29992, 19981, 22312, 30333, 21517, 21333, 20869]"

definition msg_no_content :: ustr where
  \<comment> \<open>"error: no text or image"\<close>
  "msg_no_content = [38169, 35823, 58, 32, 27809, 26377, 25991, 26412, 25110, 22270, 20687]"

definition msg_gen_failed :: ustr where
  \<comment> \<open>"generating the image failed: "\<close>
  "msg_gen_failed = [29983, 25104, 22270, 20687, 22833, 36133, 58, 32]"

definition msg_copy_failed :: ustr where
  \<comment> \<open>"copying to the clipboard failed"\<close>
  "msg_copy_failed = [22797, 21046, 21040, 21098, 36148, 26495, 22833, 36133]"

definition msg_role :: ustr where
  \<comment> \<open>"character: "\<close>
  "msg_role = [35282, 33394, 58, 32]"

definition msg_elapsed :: ustr where
  \<comment> \<open>", time used: "\<close>
  "msg_elapsed = [44, 32, 29992, 26102, 58, 32]"

definition msg_ms :: ustr where
  "msg_ms = [109, 115]"

definition msg_init_done :: ustr where
  \<comment> \<open>"sentiment analyzer initialized, feature enabled"\<close>
  "msg_init_done =
     [24773, 24863, 20998, 26512, 22120, 21021, 22987, 21270, 23436, 25104, 65292, 21151, 33021,
      24050, 21551, 29992]"

definition msg_init_failed :: ustr where
  \<comment> \<open>"sentiment analyzer initialization failed, feature disabled"\<close>
  "msg_init_failed =
     [24773, 24863, 20998, 26512, 22120, 21021, 22987, 21270, 22833, 36133, 65292, 21151, 33021,
      24050, 31105, 29992]"

definition msg_init_skipped :: ustr where
  \<comment> \<open>"sentiment matching is not enabled, initialization skipped"\<close>
  "msg_init_skipped =
     [24773, 24863, 21305, 37197, 21151, 33021, 26410, 21551, 29992, 65292, 36339, 36807, 21021,
      22987, 21270]"

definition msg_disabled :: ustr where
  \<comment> \<open>"sentiment matching has been disabled"\<close>
  "msg_disabled = [24773, 24863, 21305, 37197, 21151, 33021, 24050, 31105, 29992]"

definition msg_not_init :: ustr where
  \<comment> \<open>"sentiment analyzer not initialized, analysis skipped"\<close>
  "msg_not_init =
     [24773, 24863, 20998, 26512, 22120, 26410, 21021, 22987, 21270, 65292, 36339, 36807, 24773,
      24863, 20998, 26512]"

definition filter_all :: ustr where
  \<comment> \<open>the default emotion filter, "all"\<close>
  "filter_all = [20840, 37096]"

text \<open>The annotation \<^verbatim>\<open>_update_emotion_by_sentiment\<close> adds to the status for an updated layer.\<close>

definition emotion_info :: "ustr \<Rightarrow> ustr \<Rightarrow> int \<Rightarrow> ustr" where
  "emotion_info char_full_name sentiment idx =
     [35282, 33394, 32] @ char_full_name @ [32, 34920, 24773, 40] @ sentiment @ [41, 58, 32] @
     str_int idx @ [32, 124]"

subsection \<open>State\<close>

text \<open>
  A dictionary key that may be absent is an option. \<open>sentiment_matching\<close> is the entry of that
  name in \<^verbatim>\<open>CONFIGS.gui_settings\<close>, \<open>component\<close> a layer of the preview style, \<open>profile\<close> a
  character's entry in \<^verbatim>\<open>CONFIGS.mahoshojo\<close>: its full name and, for a sentiment, the emotion
  indices that express it.
\<close>

record sentiment_matching =
  sm_enabled :: bool
  ai_model :: "ustr option"
  model_configs :: "ustr \<rightharpoonup> config"

record component =
  comp_enabled :: "bool option"
  comp_type :: "string option"
  comp_character_name :: "ustr option"
  comp_emotion_filter :: "ustr option"
  comp_emotion_index :: "int option"
  comp_force_use :: "bool option"

record profile =
  full_name :: "ustr option"
  sentiment_emotions :: "ustr \<rightharpoonup> int list"

text \<open>
  What the core reads from the configuration, whose module is not in the sources, and the
  random numbers: \<open>random_draw k\<close> is the raw value of the \<open>k\<close>-th draw, from which
  \<^verbatim>\<open>random.choice\<close> takes an element of its list.
\<close>

record configs =
  mahoshojo :: "ustr \<rightharpoonup> profile"
  get_character :: ustr
  get_filtered_emotions :: "ustr \<Rightarrow> ustr \<Rightarrow> int list"
  random_draw :: "nat \<Rightarrow> nat"

text \<open>
  The core object with the settings it writes: the analyzer, the three entries of
  \<^verbatim>\<open>sentiment_analyzer_status\<close>, the settings in memory and as last saved, the preview
  components (changed in place), \<^verbatim>\<open>base_msg\<close>, the number of random draws made, and the
  record of the calls on collaborators.
\<close>

record core =
  sentiment_analyzer :: analyzer
  initialized :: bool
  initializing :: bool
  current_config :: "(ustr \<times> config) option"
  gui_settings :: "sentiment_matching option"
  saved_settings :: "sentiment_matching option"
  components :: "component list"
  base_msg :: ustr
  draws :: nat
  trace :: "event list"

definition emit :: "event list \<Rightarrow> core \<Rightarrow> core" where
  "emit evs c = c\<lparr>trace := trace c @ evs\<rparr>"

definition update_status :: "ustr \<Rightarrow> core \<Rightarrow> core" where
  "update_status message c = emit [Status message] c"

definition notify_gui_status_change :: "bool \<Rightarrow> bool \<Rightarrow> bool \<Rightarrow> core \<Rightarrow> core" where
  "notify_gui_status_change i en ing c = emit [Gui i en ing] c"

text \<open>\<^verbatim>\<open>sentiment_settings.get("enabled", False)\<close> on the settings, absent or present.\<close>

definition sentiment_enabled :: "sentiment_matching option \<Rightarrow> bool" where
  "sentiment_enabled sentiment_settings =
     (case sentiment_settings of None \<Rightarrow> False | Some sm \<Rightarrow> sm_enabled sm)"

subsection \<open>Initialization of the analyzer\<close>

definition disable_sentiment_matching :: "core \<Rightarrow> core" where
  "disable_sentiment_matching c =
     (let c1 = (case gui_settings c of
                  Some sm \<Rightarrow> c\<lparr>gui_settings := Some (sm\<lparr>sm_enabled := False\<rparr>)\<rparr>
                | None \<Rightarrow> c);
          c2 = emit [SaveSettings] (c1\<lparr>saved_settings := gui_settings c1\<rparr>)
      in update_status msg_disabled c2)"

text \<open>
  \<^verbatim>\<open>init_task\<close>, the body of \<^verbatim>\<open>_initialize_sentiment_analyzer_async\<close>. The branch is taken
  on the truth of what \<^verbatim>\<open>initialize\<close> returned. The callbacks and the saving of the settings
  are taken not to raise, so the handler of \<^verbatim>\<open>init_task\<close> itself has nothing to catch.
\<close>

definition init_task :: "backend \<Rightarrow> core \<Rightarrow> core" where
  "init_task b c0 =
     (let c1 = notify_gui_status_change False False True (c0\<lparr>initializing := True\<rparr>);
          sentiment_settings = gui_settings c1;
          c2 =
            (if sentiment_enabled sentiment_settings then
               (let client_type =
                      (case sentiment_settings of
                         Some sm \<Rightarrow> (case ai_model sm of Some m \<Rightarrow> m | None \<Rightarrow> ascii ''ollama'')
                       | None \<Rightarrow> ascii ''ollama'');
                    config =
                      (case sentiment_settings of
                         Some sm \<Rightarrow> (case model_configs sm client_type of Some cf \<Rightarrow> cf | None \<Rightarrow> [])
                       | None \<Rightarrow> []);
                    c3 = c1\<lparr>current_config := Some (client_type, config)\<rparr>;
                    (success, a, evs) = initialize b client_type config (sentiment_analyzer c3);
                    c4 = emit evs (c3\<lparr>sentiment_analyzer := a\<rparr>)
                in if truthy success then
                     notify_gui_status_change True True False
                       ((update_status msg_init_done c4)\<lparr>initialized := True\<rparr>)
                   else
                     disable_sentiment_matching
                       (notify_gui_status_change False False False
                          ((update_status msg_init_failed c4)\<lparr>initialized := False\<rparr>)))
             else
               notify_gui_status_change False False False
                 ((update_status msg_init_skipped c1)\<lparr>initialized := False\<rparr>))
      in c2\<lparr>initializing := False\<rparr>)"

subsection \<open>Choosing emotions by sentiment\<close>

datatype loop_exit = Completed | ReturnedFalse

text \<open>
  The loop of \<^verbatim>\<open>_update_emotion_by_sentiment\<close> over the components, carrying
  \<^verbatim>\<open>updated\<close>, \<^verbatim>\<open>base_msg\<close> and the number of draws. A character layer whose filter
  yields no emotion ends the whole function with \<^verbatim>\<open>return False\<close>.
\<close>

fun sentiment_layers ::
  "configs \<Rightarrow> ustr \<Rightarrow> component list \<Rightarrow> bool \<times> ustr \<times> nat \<Rightarrow>
   component list \<times> loop_exit \<times> (bool \<times> ustr \<times> nat)" where
  "sentiment_layers cf sentiment [] s = ([], Completed, s)"
| "sentiment_layers cf sentiment (component # rest) (updated, msg, k) =
     (if \<not> (case comp_enabled component of Some en \<Rightarrow> en | None \<Rightarrow> True) then
        (let (rest', ex, s') = sentiment_layers cf sentiment rest (updated, msg, k)
         in (component # rest', ex, s'))
      else if comp_type component = Some ''character'' then
        (let cname = (case comp_character_name component of Some n \<Rightarrow> n | None \<Rightarrow> get_character cf);
             filter_name = (case comp_emotion_filter component of Some f \<Rightarrow> f | None \<Rightarrow> filter_all);
             filtered_emotions = get_filtered_emotions cf cname filter_name
         in if filtered_emotions = [] then (component # rest, ReturnedFalse, (updated, msg, k))
            else
              (let emotion_indices =
                     (case mahoshojo cf cname of
                        Some p \<Rightarrow> (case sentiment_emotions p sentiment of Some l \<Rightarrow> l | None \<Rightarrow> [])
                      | None \<Rightarrow> []);
                   available_emotions =
                     filter (\<lambda>idx. idx \<in> set filtered_emotions) emotion_indices
               in if available_emotions \<noteq> [] then
                    (let chosen =
                           available_emotions ! (random_draw cf k mod length available_emotions);
                         component' =
                           component\<lparr>comp_emotion_index := Some chosen, comp_force_use := Some True\<rparr>;
                         char_full_name =
                           (case mahoshojo cf cname of
                              Some p \<Rightarrow> (case full_name p of Some n \<Rightarrow> n | None \<Rightarrow> cname)
                            | None \<Rightarrow> cname);
                         info = emotion_info char_full_name sentiment chosen;
                         (rest', ex, s') =
                           sentiment_layers cf sentiment rest (True, msg @ info, Suc k)
                     in (component' # rest', ex, s'))
                  else
                    (let (rest', ex, s') = sentiment_layers cf sentiment rest (updated, msg, k)
                     in (component # rest', ex, s'))))
      else
        (let (rest', ex, s') = sentiment_layers cf sentiment rest (updated, msg, k)
         in (component # rest', ex, s')))"

definition update_emotion_by_sentiment ::
  "backend \<Rightarrow> configs \<Rightarrow> ustr \<Rightarrow> core \<Rightarrow> bool \<times> core" where
  "update_emotion_by_sentiment b cf text c =
     (if \<not> initialized c then (False, update_status msg_not_init c)
      else
        (let (sentiment, a, evs) = analyze_sentiment b text (sentiment_analyzer c);
             c1 = emit evs (c\<lparr>sentiment_analyzer := a\<rparr>)
         in case sentiment of
              None \<Rightarrow> (False, c1)
            | Some snt \<Rightarrow>
                (if snt = [] then (False, c1)
                 else
                   (let (comps, ex, (updated, msg, k)) =
                          sentiment_layers cf snt (components c1) (False, base_msg c1, draws c1);
                        c2 = c1\<lparr>components := comps, base_msg := msg, draws := k\<rparr>
                    in case ex of
                         ReturnedFalse \<Rightarrow> (False, c2)
                       | Completed \<Rightarrow>
                           (if updated then (True, emit [ClearLayerCache] c2)
                            else (False, c2))))))"

subsection \<open>The dispatch pipeline\<close>

text \<open>
  \<^verbatim>\<open>_active_process_allowed\<close>. \<open>fg\<close> is the name of the foreground process as the platform
  reports it, \<open>None\<close> when it cannot be read; \<open>lower\<close> is \<^verbatim>\<open>str.lower\<close>.
\<close>

definition active_process_allowed ::
  "(ustr \<Rightarrow> ustr) \<Rightarrow> string \<Rightarrow> ustr list \<Rightarrow> ustr option \<Rightarrow> bool" where
  "active_process_allowed lower platform process_whitelist fg =
     (if process_whitelist = [] then True
      else
        (let wl = set (map lower process_whitelist) in
         if startswith platform ''win'' then
           (case fg of None \<Rightarrow> False | Some name \<Rightarrow> lower name \<in> wl)
         else if platform = ''darwin'' then
           (case fg of None \<Rightarrow> False | Some name \<Rightarrow> lower (strip name) \<in> wl)
         else True))"

text \<open>
  One run of \<^verbatim>\<open>generate_image\<close> meets these surroundings. The clock is not modelled:
  \<open>polls\<close> are the clipboard readings, text and image, that the polling loop can take before
  its 2.5 second deadline, one for each pass, and \<open>confirm_polls\<close> the answers of
  \<^verbatim>\<open>has_image_in_clipboard\<close> within the 0.5 second budget of the confirmation loop. \<open>draw\<close>
  is \<^verbatim>\<open>draw_content_auto\<close>, the renderer: \<open>Inl\<close> the text of the exception it raises,
  \<open>Inr\<close> the bitmap bytes.
\<close>

record session =
  platform :: string
  process_whitelist :: "ustr list"
  foreground :: "ustr option"
  foreground_after_paste :: "ustr option"
  cut_mode :: string
  polls :: "(ustr \<times> image option) list"
  draw :: "ustr \<Rightarrow> image option \<Rightarrow> ustr + nat list"
  copy_ok :: bool
  confirm_polls :: "bool list"
  auto_paste :: bool
  auto_send :: bool
  elapsed_ms :: int

datatype pyexc = UnboundLocalError

datatype outcome = Returned ustr | Raised pyexc

text \<open>
  The polling loop: a reading with non-blank text or with an image ends it; otherwise it
  sleeps and reads again while readings remain. It yields the last reading taken, none if
  the loop body never ran.
\<close>

definition has_content :: "ustr \<times> image option \<Rightarrow> bool" where
  "has_content r = ((fst r \<noteq> [] \<and> strip (fst r) \<noteq> []) \<or> snd r \<noteq> None)"

fun poll_clipboard ::
  "(ustr \<times> image option) list \<Rightarrow> (ustr \<times> image option) option \<Rightarrow>
   event list \<times> (ustr \<times> image option) option" where
  "poll_clipboard [] last_read = ([], last_read)"
| "poll_clipboard (r # rs) last_read =
     (if has_content r then ([ReadClipboard], Some r)
      else
        (let (evs, l) = poll_clipboard rs (Some r)
         in (ReadClipboard # Sleep (5 / 1000) # evs, l)))"

text \<open>
  The confirmation loop: the \<open>k\<close>-th wait is 10 ms times 1.5 to the \<open>k\<close>, at most 80 ms.
\<close>

fun confirm_loop :: "bool list \<Rightarrow> nat \<Rightarrow> event list" where
  "confirm_loop [] k = []"
| "confirm_loop (has_image # rest) k =
     (if has_image then [HasImage]
      else HasImage # Sleep (min ((1 / 100) * (3 / 2) ^ k) (2 / 25)) # confirm_loop rest (Suc k))"

definition finish :: "configs \<Rightarrow> session \<Rightarrow> core \<Rightarrow> outcome \<times> core" where
  "finish cf ss c =
     (let msg = base_msg c @ msg_role @ get_character cf @ msg_elapsed @
                str_int (elapsed_ms ss) @ msg_ms
      in (Returned msg, c\<lparr>base_msg := msg\<rparr>))"

text \<open>
  \<^verbatim>\<open>generate_image\<close>. \<^verbatim>\<open>generate_preview\<close> is recorded as the event \<open>Preview\<close>; what it
  does to the components is outside the statements made here.
\<close>

definition generate_image :: "backend \<Rightarrow> configs \<Rightarrow> session \<Rightarrow> core \<Rightarrow> outcome \<times> core" where
  "generate_image b cf ss c0 =
     (if \<not> active_process_allowed (str_lower b) (platform ss) (process_whitelist ss)
            (foreground ss)
      then (Returned msg_not_whitelisted, c0)
      else
        (let c1 = emit ([ClearClipboard, Sleep (5 / 1000)] @
                        map Keys (cut_keys (platform ss) (cut_mode ss)))
                    (c0\<lparr>base_msg := []\<rparr>);
             (evs, last_read) = poll_clipboard (polls ss) None;
             c2 = emit evs c1
         in case last_read of
              None \<Rightarrow> (Raised UnboundLocalError, c2)
            | Some (text, img) \<Rightarrow>
                (let c3 =
                       (if sentiment_enabled (gui_settings c2) \<and> initialized c2 \<and>
                           strip text \<noteq> []
                        then
                          (let (emotion_updated, c) = update_emotion_by_sentiment b cf text c2
                           in if emotion_updated then emit [Preview] c else c)
                        else c2)
                 in if text = [] \<and> img = None then (Returned msg_no_content, c3)
                    else
                      (case draw ss text img of
                         Inl e \<Rightarrow> (Returned (msg_gen_failed @ e), emit [Compose text img] c3)
                       | Inr bmp_bytes \<Rightarrow>
                           (let c4 = emit [Compose text img, CopyImage bmp_bytes] c3 in
                            if \<not> copy_ok ss then (Returned msg_copy_failed, c4)
                            else
                              (let c5 = emit (confirm_loop (confirm_polls ss) 0) c4 in
                               if auto_paste ss then
                                 (let modifier = (if platform ss \<noteq> ''darwin'' then Ctrl else Cmd);
                                      c6 = emit [Keys (Press modifier), Keys (Press (Char CHR ''v'')),
                                                 Keys (Release (Char CHR ''v'')),
                                                 Keys (Release modifier)] c5
                                  in if \<not> active_process_allowed (str_lower b) (platform ss)
                                            (process_whitelist ss) (foreground_after_paste ss)
                                     then (Returned msg_not_whitelisted, c6)
                                     else
                                       (if auto_send ss then
                                          finish cf ss
                                            (emit [Sleep (2 / 5), Keys (Press Enter),
                                                   Keys (Release Enter)] c6)
                                        else finish cf ss c6))
                               else finish cf ss c5))))))"

subsection \<open>Concrete surroundings for the examples\<close>

text \<open>\<^verbatim>\<open>str.lower\<close> as it acts on ASCII text.\<close>

definition lower_ascii :: "ustr \<Rightarrow> ustr" where
  "lower_ascii s = map (\<lambda>c. if 65 \<le> c \<and> c \<le> 90 then c + 32 else c) s"

definition calm :: ustr where
  "calm = [24179, 38745]"

definition happy :: ustr where
  "happy = [24320, 24515]"

text \<open>
  A backend that connects and answers every request with "ok", one that connects and
  classifies every text as happy, and one whose connection test raises.
\<close>

definition ok_backend :: backend where
  "ok_backend =
     \<lparr>test_reply = (\<lambda>m. Inr (Some (ascii ''Hi''))),
      chat = (\<lambda>p m. Inr (Some (ascii ''ok''))),
      str_lower = lower_ascii,
      word_char = (\<lambda>c. (48 \<le> c \<and> c \<le> 57) \<or> (65 \<le> c \<and> c \<le> 90) \<or> c = 95 \<or> (97 \<le> c \<and> c \<le> 122)),
      emotion_list = [calm, happy],
      rule_prompt = ascii ''rules''\<rparr>"

definition happy_backend :: backend where
  "happy_backend = ok_backend\<lparr>chat := (\<lambda>p m. Inr (Some happy))\<rparr>"

definition unreachable_backend :: backend where
  "unreachable_backend = ok_backend\<lparr>test_reply := (\<lambda>m. Inl (ascii ''Connection error.''))\<rparr>"

definition ollama_settings :: sentiment_matching where
  "ollama_settings =
     \<lparr>sm_enabled = True, ai_model = Some (ascii ''ollama''),
      model_configs = [ascii ''ollama'' \<mapsto> [(''model'', ascii ''qwen'')]]\<rparr>"

definition new_analyzer :: analyzer where
  "new_analyzer = \<lparr>is_initialized = False, current_client = None, selected_emotion = None\<rparr>"

definition enabled_core :: core where
  "enabled_core =
     \<lparr>sentiment_analyzer = new_analyzer, initialized = False, initializing = False,
      current_config = None, gui_settings = Some ollama_settings,
      saved_settings = Some ollama_settings, components = [], base_msg = [], draws = 0,
      trace = []\<rparr>"

definition blank_session :: session where
  "blank_session =
     \<lparr>platform = ''win32'', process_whitelist = [], foreground = None,
      foreground_after_paste = None, cut_mode = ''direct'',
      polls = [([], None), ([], None)],
      draw = (\<lambda>t i. Inr [66, 77]), copy_ok = True, confirm_polls = [False, True],
      auto_paste = False, auto_send = False, elapsed_ms = 42\<rparr>"

definition whitespace_session :: session where
  "whitespace_session = blank_session\<lparr>polls := [([32, 10], None), ([32, 10], None)]\<rparr>"

definition demo_configs :: configs where
  "demo_configs =
     \<lparr>mahoshojo = Map.empty, get_character = ascii ''ema'',
      get_filtered_emotions = (\<lambda>c f. []), random_draw = (\<lambda>k. 0)\<rparr>"

text \<open>
  Three character layers: the first has a matching emotion, the second has a filter that
  yields nothing, the third has a matching emotion again.
\<close>

definition character_layer :: "ustr \<Rightarrow> component" where
  "character_layer name =
     \<lparr>comp_enabled = Some True, comp_type = Some ''character'',
      comp_character_name = Some name, comp_emotion_filter = None,
      comp_emotion_index = None, comp_force_use = None\<rparr>"

definition layer_configs :: configs where
  "layer_configs =
     \<lparr>mahoshojo =
        [ascii ''ema'' \<mapsto> \<lparr>full_name = Some (ascii ''Ema''),
                              sentiment_emotions = [happy \<mapsto> [2, 5]]\<rparr>,
         ascii ''coco'' \<mapsto> \<lparr>full_name = None, sentiment_emotions = [happy \<mapsto> [1]]\<rparr>],
      get_character = ascii ''ema'',
      get_filtered_emotions =
        (\<lambda>c f. if c = ascii ''ema'' then [1, 2, 3] else if c = ascii ''hiro'' then [] else [1, 2]),
      random_draw = (\<lambda>k. 0)\<rparr>"

definition ready_core :: core where
  "ready_core =
     enabled_core
       \<lparr>sentiment_analyzer := new_analyzer\<lparr>is_initialized := True,
                                              current_client := Some (ascii ''ollama'')\<rparr>,
        initialized := True,
        components := [character_layer (ascii ''ema''), character_layer (ascii ''hiro''),
                       character_layer (ascii ''coco'')]\<rparr>"

definition hello_session :: session where
  "hello_session = blank_session\<lparr>polls := [(ascii ''hello'', None)]\<rparr>"

text \<open>The events of a composition attempt.\<close>

fun composition_event :: "event \<Rightarrow> bool" where
  "composition_event (Compose t i) = True"
| "composition_event (CopyImage bs) = True"
| "composition_event _ = False"

section \<open>The preload scheduler (load_utils.py, \<^verbatim>\<open>PreloadManager\<close>)\<close>

text \<open>
  Two threads share the task queue: the thread that calls
  \<^verbatim>\<open>preload_character_images_async\<close> (the submitter) and the worker thread. The operations
  of \<^verbatim>\<open>queue.Queue\<close> are atomic, so a run is an interleaving of the steps below, each holding
  at most one queue operation; a schedule names the thread that moves next.
\<close>

datatype actor = Submitter | Worker

text \<open>
  The calls of \<^verbatim>\<open>update_status\<close>, by the message they carry, and the calls of
  \<^verbatim>\<open>load_character_safe\<close> (\<open>Load\<close>).
\<close>

datatype preload_report =
  Submitted ustr
  | QueueFull ustr
  | PreloadDisabled ustr
  | NoProfile ustr
  | Started ustr
  | Interrupted ustr
  | Load ustr int
  | Progress ustr int int
  | Finished ustr
  | Failed ustr error

text \<open>
  Where each thread stands. The submitter is outside a call, or inside one for a character:
  before the test \<^verbatim>\<open>not self._task_queue.empty()\<close>, before \<^verbatim>\<open>get_nowait\<close>, or before
  \<^verbatim>\<open>put_nowait\<close>. The worker waits in \<^verbatim>\<open>get\<close>, has taken a character, or is in the loop
  of \<^verbatim>\<open>_preload_character_task\<close> before emotion \<open>i\<close> of \<open>n\<close>.
\<close>

datatype sstate = Idle | Checking ustr | Getting ustr | Putting ustr

datatype wstate = Waiting | Starting ustr | Loading ustr int int

text \<open>
  \<^verbatim>\<open>preload_character\<close> of the settings and \<^verbatim>\<open>emotion_count\<close> of each configured character.
\<close>

record preload_config =
  preload_character :: bool
  emotion_count :: "ustr \<rightharpoonup> int"

text \<open>
  The manager: the calls still to be made, the two threads, the queue (at most one task),
  the caches, \<^verbatim>\<open>_preload_status\<close>, \<^verbatim>\<open>_current_character\<close> and the reports made.
\<close>

record preload =
  calls :: "ustr list"
  submitter :: sstate
  task_queue :: "ustr list"
  worker :: wstate
  cache :: caches
  total_items :: int
  loaded_items :: int
  is_complete :: bool
  current_character :: "ustr option"
  reports :: "preload_report list"

definition preload_update_status :: "preload_report \<Rightarrow> preload \<Rightarrow> preload" where
  "preload_update_status r s = s\<lparr>reports := reports s @ [r]\<rparr>"

text \<open>
  One step of \<^verbatim>\<open>preload_character_images_async\<close>: the loop that empties the queue (a
  \<^verbatim>\<open>get_nowait\<close> on a queue emptied meanwhile raises \<^verbatim>\<open>queue.Empty\<close> and leaves the loop),
  then \<^verbatim>\<open>put_nowait\<close>, which raises \<^verbatim>\<open>queue.Full\<close> on a full queue.
\<close>

definition submitter_step :: "preload \<Rightarrow> preload" where
  "submitter_step s =
     (case submitter s of
        Idle \<Rightarrow>
          (case calls s of
             [] \<Rightarrow> s
           | character_name # later \<Rightarrow> s\<lparr>calls := later, submitter := Checking character_name\<rparr>)
      | Checking character_name \<Rightarrow>
          (if task_queue s \<noteq> [] then s\<lparr>submitter := Getting character_name\<rparr>
           else s\<lparr>submitter := Putting character_name\<rparr>)
      | Getting character_name \<Rightarrow>
          (case task_queue s of
             [] \<Rightarrow> s\<lparr>submitter := Putting character_name\<rparr>
           | old # remaining \<Rightarrow> s\<lparr>task_queue := remaining, submitter := Checking character_name\<rparr>)
      | Putting character_name \<Rightarrow>
          (if 1 \<le> length (task_queue s) then
             preload_update_status (QueueFull character_name) (s\<lparr>submitter := Idle\<rparr>)
           else
             preload_update_status (Submitted character_name)
               (s\<lparr>task_queue := task_queue s @ [character_name], submitter := Idle\<rparr>)))"

text \<open>
  One step of \<^verbatim>\<open>_preload_worker\<close> and \<^verbatim>\<open>_preload_character_task\<close>: take a task; test the
  setting and the configuration; then, for each emotion, test the queue and load. The test
  and the load after it are one step: the load does not touch the queue, so a task put
  between the two has the effect of one put after the load. An exception of the load ends
  the task through its handler. \<^verbatim>\<open>get\<close> on an empty queue times out and is tried again.
\<close>

definition worker_step :: "env \<Rightarrow> preload_config \<Rightarrow> preload \<Rightarrow> preload" where
  "worker_step e pc s =
     (case worker s of
        Waiting \<Rightarrow>
          (case task_queue s of
             [] \<Rightarrow> s
           | character_name # remaining \<Rightarrow>
               s\<lparr>task_queue := remaining, worker := Starting character_name\<rparr>)
      | Starting character_name \<Rightarrow>
          (if \<not> preload_character pc then
             preload_update_status (PreloadDisabled character_name) (s\<lparr>worker := Waiting\<rparr>)
           else
             (let s1 = s\<lparr>current_character := Some character_name, is_complete := False\<rparr> in
              case emotion_count pc character_name of
                None \<Rightarrow> preload_update_status (NoProfile character_name) (s1\<lparr>worker := Waiting\<rparr>)
              | Some n \<Rightarrow>
                  preload_update_status (Started character_name)
                    (s1\<lparr>total_items := n, loaded_items := 0,
                        worker := Loading character_name 1 n\<rparr>)))
      | Loading character_name i n \<Rightarrow>
          (if n < i then
             preload_update_status (Finished character_name) (s\<lparr>is_complete := True, worker := Waiting\<rparr>)
           else if task_queue s \<noteq> [] then
             preload_update_status (Interrupted character_name) (s\<lparr>worker := Waiting\<rparr>)
           else
             (case load_character_safe e character_name i default_size character_default_color
                     (cache s) of
                (Inl err, st) \<Rightarrow>
                  preload_update_status (Failed character_name err)
                    (preload_update_status (Load character_name i)
                       (s\<lparr>cache := st, is_complete := True, worker := Waiting\<rparr>))
              | (Inr a, st) \<Rightarrow>
                  preload_update_status (Progress character_name i n)
                    (preload_update_status (Load character_name i)
                       (s\<lparr>cache := st, loaded_items := i,
                          worker := Loading character_name (i + 1) n\<rparr>)))))"

fun step :: "env \<Rightarrow> preload_config \<Rightarrow> actor \<Rightarrow> preload \<Rightarrow> preload" where
  "step e pc Submitter s = submitter_step s"
| "step e pc Worker s = worker_step e pc s"

fun run :: "env \<Rightarrow> preload_config \<Rightarrow> actor list \<Rightarrow> preload \<Rightarrow> preload" where
  "run e pc [] s = s"
| "run e pc (a # sched) s = run e pc sched (step e pc a s)"

text \<open>The characters a state still names, and the loads among reports.\<close>

fun submitting :: "sstate \<Rightarrow> ustr set" where
  "submitting Idle = {}"
| "submitting (Checking c) = {c}"
| "submitting (Getting c) = {c}"
| "submitting (Putting c) = {c}"

fun working_on :: "wstate \<Rightarrow> ustr set" where
  "working_on Waiting = {}"
| "working_on (Starting c) = {c}"
| "working_on (Loading c i n) = {c}"

definition names_of :: "preload \<Rightarrow> ustr set" where
  "names_of s = set (calls s) \<union> submitting (submitter s) \<union> set (task_queue s) \<union> working_on (worker s)"

fun loads :: "preload_report list \<Rightarrow> (ustr \<times> int) list" where
  "loads [] = []"
| "loads (Load c i # rs) = (c, i) # loads rs"
| "loads (r # rs) = loads rs"

text \<open>
  Every entry of every cache is still there, with the same object, and the references are
  valid.
\<close>

definition cache_kept :: "caches \<Rightarrow> caches \<Rightarrow> bool" where
  "cache_kept st st' \<longleftrightarrow>
     valid_refs st' \<and> length (heap st) \<le> length (heap st') \<and>
     (\<forall>k a. font_cache st k = Some a \<longrightarrow> font_cache st' k = Some a \<and> heap st' ! a = heap st ! a) \<and>
     (\<forall>k a. background_cache st k = Some a \<longrightarrow>
        background_cache st' k = Some a \<and> heap st' ! a = heap st ! a) \<and>
     (\<forall>k a. character_cache st k = Some a \<longrightarrow>
        character_cache st' k = Some a \<and> heap st' ! a = heap st ! a) \<and>
     (\<forall>k a. general_image_cache st k = Some a \<longrightarrow>
        general_image_cache st' k = Some a \<and> heap st' ! a = heap st ! a)"

text \<open>
  A disk with two emotions of one character and one of another, and two states of the
  manager: the second character is being submitted while the first is queued and the worker
  waits; the second character is queued while the worker is about to load the second
  emotion of the first.
\<close>

definition chara_disk :: env where
  "chara_disk =
     empty_disk\<lparr>files :=
       [ascii ''assets/chara/ema/ema (1).png'' \<mapsto> ImageFile picture,
        ascii ''assets/chara/ema/ema (2).png'' \<mapsto> ImageFile picture,
        ascii ''assets/chara/coco/coco (1).png'' \<mapsto> ImageFile picture]\<rparr>"

definition preload_on :: preload_config where
  "preload_on =
     \<lparr>preload_character = True, emotion_count = [ascii ''ema'' \<mapsto> 2, ascii ''coco'' \<mapsto> 1]\<rparr>"

definition preload_start :: preload where
  "preload_start =
     \<lparr>calls = [ascii ''ema'', ascii ''coco''], submitter = Idle, task_queue = [],
      worker = Waiting, cache = no_caches, total_items = 0, loaded_items = 0,
      is_complete = False, current_character = None, reports = []\<rparr>"

definition superseding :: preload where
  "superseding =
     preload_start\<lparr>calls := [], submitter := Getting (ascii ''coco''),
                   task_queue := [ascii ''ema''], reports := [Submitted (ascii ''ema'')]\<rparr>"

definition ema_cached :: caches where
  "ema_cached =
     \<lparr>heap = [ImageObj picture, ImageObj picture], font_cache = Map.empty,
      background_cache = Map.empty,
      character_cache = [ascii ''assets/chara/ema/ema (1)'' \<mapsto> 0],
      general_image_cache = Map.empty\<rparr>"

definition interrupting :: preload where
  "interrupting =
     \<lparr>calls = [], submitter = Idle, task_queue = [ascii ''coco''],
      worker = Loading (ascii ''ema'') 2 2, cache = ema_cached, total_items = 2,
      loaded_items = 1, is_complete = False, current_character = Some (ascii ''ema''),
      reports = [Submitted (ascii ''ema''), Started (ascii ''ema''), Load (ascii ''ema'') 1,
                 Progress (ascii ''ema'') 1 2, Submitted (ascii ''coco'')]\<rparr>"

section \<open>Theorems\<close>

text \<open>
  C9. The canvas size is always 2560 wide; its height is 2048 when the configured aspect ratio
  is "5:4", 1440 when it is "16:9", and 854 for any other value.
\<close>

theorem canvas_size_by_ratio:
  "fst (calculate_canvas_size ratio) = 2560 \<and>
   (ratio = ''5:4'' \<longrightarrow> snd (calculate_canvas_size ratio) = 2048) \<and>
   (ratio = ''16:9'' \<longrightarrow> snd (calculate_canvas_size ratio) = 1440) \<and>
   (ratio \<noteq> ''5:4'' \<and> ratio \<noteq> ''16:9'' \<longrightarrow> snd (calculate_canvas_size ratio) = 854)"
  by (simp add: calculate_canvas_size_def)

theorem canvas_size_by_ratio_witness:
  "calculate_canvas_size ''5:4'' = (2560, 2048) \<and>
   calculate_canvas_size ''16:9'' = (2560, 1440) \<and>
   calculate_canvas_size ''3:1'' = (2560, 854)"
  using canvas_size_by_ratio [of "''5:4''"] canvas_size_by_ratio [of "''16:9''"]
    canvas_size_by_ratio [of "''3:1''"]
  by (simp add: prod_eq_iff)

text \<open>
  C7. Clearing one partition never affects another: after \<^verbatim>\<open>clear_cache("character")\<close> the
  character partition is empty and the font, background and general partitions (and the
  objects themselves) are as before; likewise for each of the other three single-partition
  arguments, "font", "background" and "image" (the general partition).
\<close>

theorem clear_cache_partition_isolation:
  "character_cache (clear_cache ''character'' st) = Map.empty \<and>
   font_cache (clear_cache ''character'' st) = font_cache st \<and>
   background_cache (clear_cache ''character'' st) = background_cache st \<and>
   general_image_cache (clear_cache ''character'' st) = general_image_cache st \<and>
   heap (clear_cache ''character'' st) = heap st \<and>
   clear_cache ''font'' st = st\<lparr>font_cache := Map.empty\<rparr> \<and>
   clear_cache ''background'' st = st\<lparr>background_cache := Map.empty\<rparr> \<and>
   clear_cache ''character'' st = st\<lparr>character_cache := Map.empty\<rparr> \<and>
   clear_cache ''image'' st = st\<lparr>general_image_cache := Map.empty\<rparr>"
  by (simp add: clear_cache_def)

text \<open>
  C8. In direct mode the keystrokes are exactly the cut keystroke, modifier and x, with no
  selecting keystroke before it; but the modifier is Ctrl on every platform, macOS included,
  where the other two modes use Cmd.
\<close>

theorem cut_direct_on_macos_uses_ctrl:
  "cut_keys ''darwin'' ''direct'' =
     [Press Ctrl, Press (Char CHR ''x''), Release (Char CHR ''x''), Release Ctrl] \<and>
   cut_keys ''darwin'' ''full'' =
     [Press Cmd, Press (Char CHR ''a''), Release (Char CHR ''a''),
      Press (Char CHR ''x''), Release (Char CHR ''x''), Release Cmd] \<and>
   Press Cmd \<in> set (cut_keys ''darwin'' ''single_line'') \<and>
   Press Cmd \<notin> set (cut_keys ''darwin'' ''direct'')"
  by (simp add: cut_keys_def startswith_def)

subsection \<open>The caches: references and copies\<close>

lemma masters_heap_upd [simp]: "masters (st\<lparr>heap := h\<rparr>) = masters st"
  by (simp add: masters_def)

lemma masters_general_upd:
  "general_image_cache st k = None \<Longrightarrow>
   masters (st\<lparr>general_image_cache := (general_image_cache st)(k \<mapsto> a)\<rparr>) = insert a (masters st)"
  by (auto simp: masters_def)

lemma masters_background_upd:
  "background_cache st k = None \<Longrightarrow>
   masters (st\<lparr>background_cache := (background_cache st)(k \<mapsto> a)\<rparr>) = insert a (masters st)"
  by (auto simp: masters_def)

lemma masters_character_upd:
  "character_cache st k = None \<Longrightarrow>
   masters (st\<lparr>character_cache := (character_cache st)(k \<mapsto> a)\<rparr>) = insert a (masters st)"
  by (auto simp: masters_def)

lemma load_image_cached_fresh:
  assumes "valid_refs st" "load_image_cached e p st = (Inr c, st')"
  shows "fresh_result st c st'"
proof (cases "general_image_cache st p")
  case None
  with assms show ?thesis
    unfolding fresh_result_def
    by (fastforce simp: load_image_cached_def alloc_def copy_obj_def Let_def valid_refs_def
        masters_general_upd split: sum.splits if_splits)
next
  case (Some m)
  with assms show ?thesis
    unfolding fresh_result_def
    by (fastforce simp: load_image_cached_def alloc_def copy_obj_def Let_def valid_refs_def)
qed

lemma load_background_safe_fresh:
  assumes "valid_refs st" "load_background_safe e n sz col st = (Inr c, st')"
  shows "fresh_result st c st'"
proof (cases "background_cache st (get_background_path e n)")
  case None
  with assms show ?thesis
    unfolding fresh_result_def
    by (fastforce simp: load_background_safe_def alloc_def copy_obj_def Let_def valid_refs_def
        masters_background_upd split: sum.splits if_splits error.splits)
next
  case (Some m)
  with assms show ?thesis
    unfolding fresh_result_def
    by (fastforce simp: load_background_safe_def alloc_def copy_obj_def Let_def valid_refs_def)
qed

lemma load_character_safe_fresh:
  assumes "valid_refs st" "load_character_safe e n i sz col st = (Inr c, st')"
  shows "fresh_result st c st'"
proof (cases "character_cache st (rsplit_dot_head (get_character_path e n i))")
  case None
  with assms show ?thesis
    unfolding fresh_result_def
    by (fastforce simp: load_character_safe_def alloc_def copy_obj_def Let_def valid_refs_def
        masters_character_upd split: sum.splits if_splits error.splits)
next
  case (Some m)
  with assms show ?thesis
    unfolding fresh_result_def
    by (fastforce simp: load_character_safe_def alloc_def copy_obj_def Let_def valid_refs_def)
qed

lemma read_image_fresh:
  "valid_refs st \<Longrightarrow> read_image e r st = (Inr c, st') \<Longrightarrow> fresh_result st c st'"
  by (cases r)
    (simp_all add: load_image_cached_fresh load_background_safe_fresh load_character_safe_fresh)

text \<open>The object returned has the contents of the master the cache holds afterwards.\<close>

lemma master_in_store:
  "valid_refs st \<Longrightarrow> cached_master e r st = Some m \<Longrightarrow> m < length (heap st)"
  by (cases r) (auto simp: valid_refs_def masters_def ran_def)

lemma read_image_copy_of_master:
  assumes "valid_refs st" "read_image e r st = (Inr c, st')" "cached_master e r st' = Some m"
  shows "heap st' ! c = heap st' ! m"
proof (cases "cached_master e r st")
  case None
  with assms show ?thesis
    by (cases r)
      (auto simp: load_image_cached_def load_background_safe_def load_character_safe_def
        alloc_def copy_obj_def Let_def nth_append
        split: sum.splits if_splits error.splits)
next
  case (Some m')
  with assms(1) have "m' < length (heap st)"
    by (rule master_in_store)
  with Some assms show ?thesis
    by (cases r)
      (auto simp: load_image_cached_def load_background_safe_def load_character_safe_def
        alloc_def copy_obj_def Let_def nth_append)
qed

lemma load_image_cached_twice:
  assumes "valid_refs st" "load_image_cached e p st = (Inr c1, st1)"
    "load_image_cached e p st1 = (Inr c2, st2)"
  shows "heap st2 ! c1 = heap st2 ! c2"
proof (cases "general_image_cache st p")
  case None
  with assms show ?thesis
    by (auto simp: load_image_cached_def alloc_def copy_obj_def Let_def nth_append
        split: sum.splits if_splits)
next
  case (Some m)
  moreover from Some assms(1) have "m < length (heap st)"
    by (auto simp: valid_refs_def masters_def ran_def)
  ultimately show ?thesis using assms
    by (auto simp: load_image_cached_def alloc_def copy_obj_def Let_def nth_append)
qed

lemma load_background_safe_twice:
  assumes "valid_refs st" "load_background_safe e n sz col st = (Inr c1, st1)"
    "load_background_safe e n sz col st1 = (Inr c2, st2)"
  shows "heap st2 ! c1 = heap st2 ! c2"
proof (cases "background_cache st (get_background_path e n)")
  case None
  with assms show ?thesis
    by (auto simp: load_background_safe_def alloc_def copy_obj_def Let_def nth_append
        split: sum.splits if_splits error.splits)
next
  case (Some m)
  moreover from Some assms(1) have "m < length (heap st)"
    by (auto simp: valid_refs_def masters_def ran_def)
  ultimately show ?thesis using assms
    by (auto simp: load_background_safe_def alloc_def copy_obj_def Let_def nth_append)
qed

lemma load_character_safe_twice:
  assumes "valid_refs st" "load_character_safe e n i sz col st = (Inr c1, st1)"
    "load_character_safe e n i sz col st1 = (Inr c2, st2)"
  shows "heap st2 ! c1 = heap st2 ! c2"
proof (cases "character_cache st (rsplit_dot_head (get_character_path e n i))")
  case None
  with assms show ?thesis
    by (auto simp: load_character_safe_def alloc_def copy_obj_def Let_def nth_append
        split: sum.splits if_splits error.splits)
next
  case (Some m)
  moreover from Some assms(1) have "m < length (heap st)"
    by (auto simp: valid_refs_def masters_def ran_def)
  ultimately show ?thesis using assms
    by (auto simp: load_character_safe_def alloc_def copy_obj_def Let_def nth_append)
qed

lemma read_image_twice:
  "valid_refs st \<Longrightarrow> read_image e r st = (Inr c1, st1) \<Longrightarrow>
   read_image e r st1 = (Inr c2, st2) \<Longrightarrow> heap st2 ! c1 = heap st2 ! c2"
  by (cases r)
    (auto intro: load_image_cached_twice load_background_safe_twice load_character_safe_twice)

subsection \<open>Missing files\<close>

lemma default_background_scaled:
  "to_target_width (image_new default_size background_default_color) = Inr background_placeholder"
  by (simp add: to_target_width_def image_new_def default_size_def background_default_color_def
      background_placeholder_def resize_def py_int_def Let_def)

lemma bg_path: "get_background_path empty_disk (ascii ''c1'') = ascii ''assets/background/c1.png''"
  by (simp add: get_background_path_def get_image_path_def supported_formats_def format_path_def
      path_exists_def empty_disk_def ascii_def)

lemma ch_path: "get_character_path empty_disk (ascii ''ema'') 3 = ascii ''assets/chara/ema/ema (3).png''"
  by (simp add: get_character_path_def get_image_path_def supported_formats_def format_path_def
      path_exists_def empty_disk_def ascii_def str_int_def digits.simps)

lemma ch_key: "rsplit_dot_head (ascii ''assets/chara/ema/ema (3).png'') = ascii ''assets/chara/ema/ema (3)''"
  by (simp add: rsplit_dot_head_def ascii_def)

text \<open>
  C2, as the code has it. For a source file that is missing and not cached, with the default
  arguments: \<^verbatim>\<open>load_background_safe\<close> raises nothing and returns a new image 2560 wide (and
  1920 high) filled with the default colour (100, 100, 200), whose alpha is 255, so it is
  opaque; \<^verbatim>\<open>load_character_safe\<close> raises nothing and returns a new 800 by 600 image that
  is fully transparent; \<^verbatim>\<open>load_image_cached\<close> raises FileNotFoundError. No cache changes.
\<close>

theorem missing_file_reads:
  "(\<not> path_exists e (get_background_path e background_name) \<and>
    background_cache st (get_background_path e background_name) = None \<longrightarrow>
      load_background_safe e background_name default_size background_default_color st =
        (Inr (length (heap st)), st\<lparr>heap := heap st @ [ImageObj background_placeholder]\<rparr>)) \<and>
   (\<not> path_exists e (get_character_path e character_name emotion_index) \<and>
    character_cache st (rsplit_dot_head (get_character_path e character_name emotion_index)) = None \<longrightarrow>
      load_character_safe e character_name emotion_index default_size character_default_color st =
        (Inr (length (heap st)), st\<lparr>heap := heap st @ [ImageObj character_placeholder]\<rparr>)) \<and>
   (\<not> path_exists e image_path \<and> general_image_cache st image_path = None \<longrightarrow>
      load_image_cached e image_path st = (Inl FileNotFoundError, st))"
proof (intro conjI impI)
  assume "\<not> path_exists e (get_background_path e background_name) \<and>
    background_cache st (get_background_path e background_name) = None"
  then show "load_background_safe e background_name default_size background_default_color st =
        (Inr (length (heap st)), st\<lparr>heap := heap st @ [ImageObj background_placeholder]\<rparr>)"
    by (simp add: load_background_safe_def default_background_scaled alloc_def)
next
  assume "\<not> path_exists e (get_character_path e character_name emotion_index) \<and>
    character_cache st (rsplit_dot_head (get_character_path e character_name emotion_index)) = None"
  then show "load_character_safe e character_name emotion_index default_size character_default_color st =
        (Inr (length (heap st)), st\<lparr>heap := heap st @ [ImageObj character_placeholder]\<rparr>)"
    by (simp add: load_character_safe_def alloc_def image_new_def default_size_def
        character_default_color_def character_placeholder_def)
next
  assume "\<not> path_exists e image_path \<and> general_image_cache st image_path = None"
  then show "load_image_cached e image_path st = (Inl FileNotFoundError, st)"
    by (simp add: load_image_cached_def)
qed

theorem missing_file_reads_witness:
  "load_background_safe empty_disk (ascii ''c1'') default_size background_default_color no_caches =
     (Inr 0, no_caches\<lparr>heap := [ImageObj background_placeholder]\<rparr>) \<and>
   load_character_safe empty_disk (ascii ''ema'') 3 default_size character_default_color no_caches =
     (Inr 0, no_caches\<lparr>heap := [ImageObj character_placeholder]\<rparr>) \<and>
   load_image_cached empty_disk (ascii ''a.png'') no_caches = (Inl FileNotFoundError, no_caches)"
  using missing_file_reads [of empty_disk "ascii ''c1''" no_caches "ascii ''ema''" 3 "ascii ''a.png''"]
  by (simp add: bg_path ch_path ch_key path_exists_def empty_disk_def no_caches_def)

text \<open>
  C2 as stated fails: with no file on disk, the general image read raises FileNotFoundError,
  and the background read returns a placeholder that is opaque, not transparent.
\<close>

theorem missing_file_raises_or_is_opaque:
  "load_image_cached empty_disk (ascii ''a.png'') no_caches = (Inl FileNotFoundError, no_caches) \<and>
   load_background_safe empty_disk (ascii ''c1'') default_size background_default_color no_caches =
     (Inr 0, no_caches\<lparr>heap := [ImageObj
        \<lparr>width = 2560, height = 1920, pixels = Solid (RGBA 100 100 200 255)\<rparr>]\<rparr>)"
  by (simp add: load_image_cached_def load_background_safe_def bg_path default_background_scaled
      background_placeholder_def alloc_def no_caches_def empty_disk_def path_exists_def)

subsection \<open>Copies and shared references\<close>

text \<open>
  C4, as the code has it. Two successive reads of the same image (general, background or
  character) return two different new objects with equal contents, neither of them held by
  any cache; the second has the contents of the cached master; and mutating either returned
  object changes neither the other nor any cached master. A font read that hits the cache
  is the exception: it returns the cached font object itself and leaves the store as it is.
\<close>

theorem image_reads_return_copies:
  assumes "valid_refs st"
    and "read_image e r st = (Inr c1, st1)"
    and "read_image e r st1 = (Inr c2, st2)"
  shows "c1 \<noteq> c2 \<and> c1 \<notin> masters st2 \<and> c2 \<notin> masters st2 \<and>
         heap st2 ! c1 = heap st2 ! c2 \<and>
         (\<forall>m. cached_master e r st2 = Some m \<longrightarrow> heap st2 ! c2 = heap st2 ! m) \<and>
         (\<forall>v. \<forall>a \<in> insert c2 (masters st2). heap (mutate c1 v st2) ! a = heap st2 ! a) \<and>
         (\<forall>v. \<forall>a \<in> insert c1 (masters st2). heap (mutate c2 v st2) ! a = heap st2 ! a) \<and>
         (\<forall>font_name sz a. font_cache st (font_name @ ascii ''_'' @ str_int sz) = Some a \<longrightarrow>
            load_font_cached e font_name sz st = (Inr a, st))"
proof -
  have f1: "fresh_result st c1 st1"
    using assms(1,2) by (rule read_image_fresh)
  then have v1: "valid_refs st1"
    by (simp add: fresh_result_def)
  have f2: "fresh_result st1 c2 st2"
    using v1 assms(3) by (rule read_image_fresh)
  have ne: "c1 \<noteq> c2"
    using f1 f2 by (auto simp: fresh_result_def)
  have n2: "c2 \<notin> masters st2"
    using f2 by (simp add: fresh_result_def)
  have n1: "c1 \<notin> masters st2"
    using f1 f2 by (auto simp: fresh_result_def)
  have eq: "heap st2 ! c1 = heap st2 ! c2"
    using assms by (rule read_image_twice)
  have ms: "\<forall>m. cached_master e r st2 = Some m \<longrightarrow> heap st2 ! c2 = heap st2 ! m"
    using read_image_copy_of_master [OF v1 assms(3)] by blast
  have m1: "\<forall>v. \<forall>a \<in> insert c2 (masters st2). heap (mutate c1 v st2) ! a = heap st2 ! a"
  proof (intro allI ballI)
    fix v a assume "a \<in> insert c2 (masters st2)"
    with ne n1 have "c1 \<noteq> a" by auto
    then show "heap (mutate c1 v st2) ! a = heap st2 ! a"
      by (simp add: mutate_def)
  qed
  have m2: "\<forall>v. \<forall>a \<in> insert c1 (masters st2). heap (mutate c2 v st2) ! a = heap st2 ! a"
  proof (intro allI ballI)
    fix v a assume "a \<in> insert c1 (masters st2)"
    with ne n2 have "c2 \<noteq> a" by auto
    then show "heap (mutate c2 v st2) ! a = heap st2 ! a"
      by (simp add: mutate_def)
  qed
  have fo: "\<forall>font_name sz a. font_cache st (font_name @ ascii ''_'' @ str_int sz) = Some a \<longrightarrow>
            load_font_cached e font_name sz st = (Inr a, st)"
    by (simp add: load_font_cached_def)
  from ne n1 n2 eq ms m1 m2 fo show ?thesis by blast
qed

theorem image_reads_return_copies_witness:
  "valid_refs no_caches \<and>
   read_image picture_disk (General (ascii ''a.png'')) no_caches = (Inr 1, picture_read_once) \<and>
   read_image picture_disk (General (ascii ''a.png'')) picture_read_once =
     (Inr 2, picture_read_twice) \<and>
   cached_master picture_disk (General (ascii ''a.png'')) picture_read_twice = Some 0 \<and>
   heap picture_read_twice ! 1 = heap picture_read_twice ! 2 \<and>
   heap picture_read_twice ! 2 = heap picture_read_twice ! 0 \<and>
   heap (mutate 1 (ImageObj character_placeholder) picture_read_twice) ! 2 = ImageObj picture \<and>
   heap (mutate 1 (ImageObj character_placeholder) picture_read_twice) ! 0 = ImageObj picture \<and>
   heap (mutate 2 (ImageObj character_placeholder) picture_read_twice) ! 1 = ImageObj picture \<and>
   heap (mutate 2 (ImageObj character_placeholder) picture_read_twice) ! 0 = ImageObj picture"
proof -
  have h0: "valid_refs no_caches"
    by (simp add: valid_refs_def masters_def no_caches_def)
  have h1: "read_image picture_disk (General (ascii ''a.png'')) no_caches =
      (Inr 1, picture_read_once)"
    by (simp add: load_image_cached_def picture_disk_def empty_disk_def no_caches_def
        path_exists_def image_open_def alloc_def copy_obj_def picture_read_once_def ascii_def)
  have h2: "read_image picture_disk (General (ascii ''a.png'')) picture_read_once =
      (Inr 2, picture_read_twice)"
    by (simp add: load_image_cached_def picture_read_once_def picture_read_twice_def
        alloc_def copy_obj_def ascii_def)
  have m: "cached_master picture_disk (General (ascii ''a.png'')) picture_read_twice = Some 0"
    by (simp add: picture_read_once_def picture_read_twice_def)
  have ms: "0 \<in> masters picture_read_twice"
    by (simp add: masters_def picture_read_once_def picture_read_twice_def ran_def)
  have hp: "heap picture_read_twice = [ImageObj picture, ImageObj picture, ImageObj picture]"
    by (simp add: picture_read_twice_def)
  note t = image_reads_return_copies [OF h0 h1 h2]
  from t m have c0: "heap picture_read_twice ! 2 = heap picture_read_twice ! 0"
    by blast
  from t ms have a: "heap (mutate 1 (ImageObj character_placeholder) picture_read_twice) ! 0 =
      heap picture_read_twice ! 0"
    by blast
  from t ms have b: "heap (mutate 2 (ImageObj character_placeholder) picture_read_twice) ! 0 =
      heap picture_read_twice ! 0"
    by blast
  from t have c: "heap (mutate 1 (ImageObj character_placeholder) picture_read_twice) ! 2 =
      heap picture_read_twice ! 2"
    by blast
  from t have d: "heap (mutate 2 (ImageObj character_placeholder) picture_read_twice) ! 1 =
      heap picture_read_twice ! 1"
    by blast
  from t have e: "heap picture_read_twice ! 1 = heap picture_read_twice ! 2"
    by blast
  show ?thesis
    using h0 h1 h2 m a b c d e c0 by (simp add: hp)
qed

text \<open>
  C4 as stated fails for the font partition: two reads of the same font return the same
  address, and it is the address the cache holds.
\<close>

theorem font_reads_share_the_master:
  "fst (load_font_cached font_disk (ascii ''font3'') 12 no_caches) = Inr 0 \<and>
   fst (load_font_cached font_disk (ascii ''font3'') 12
          (snd (load_font_cached font_disk (ascii ''font3'') 12 no_caches))) = Inr 0 \<and>
   font_cache (snd (load_font_cached font_disk (ascii ''font3'') 12 no_caches))
     (ascii ''font3_12'') = Some 0"
  by (simp add: load_font_cached_def font_disk_def empty_disk_def no_caches_def ascii_def
      str_int_def digits.simps path_exists_def truetype_def alloc_def Let_def)

subsection \<open>The dispatch pipeline\<close>

lemma poll_clipboard_blank:
  "\<forall>r \<in> set rs. \<not> has_content r \<Longrightarrow>
   poll_clipboard rs l =
     (concat (replicate (length rs) [ReadClipboard, Sleep (5 / 1000)]),
      if rs = [] then l else Some (last rs))"
  by (induction rs arbitrary: l) auto

lemma trace_emit [simp]: "trace (emit evs c) = trace c @ evs"
  by (simp add: emit_def)

lemma gui_settings_emit [simp]: "gui_settings (emit evs c) = gui_settings c"
  by (simp add: emit_def)

lemma initialized_emit [simp]: "initialized (emit evs c) = initialized c"
  by (simp add: emit_def)

lemma base_msg_emit [simp]: "base_msg (emit evs c) = base_msg c"
  by (simp add: emit_def)

lemma messages_differ:
  "msg_gen_failed @ e \<noteq> msg_no_content" "msg_copy_failed \<noteq> msg_no_content"
  "msg_not_whitelisted \<noteq> msg_no_content" "msg_role @ rest \<noteq> msg_no_content"
  by (simp_all add: msg_gen_failed_def msg_no_content_def msg_copy_failed_def
      msg_not_whitelisted_def msg_role_def)

text \<open>
  C5. When the foreground application is allowed and the polling loop reaches its deadline
  with every reading empty (no text, no image), \<^verbatim>\<open>generate_image\<close> returns exactly the
  "no content" string; all it has done is clear the clipboard, send the cut keystrokes and
  read the clipboard, so no renderer call and no copy to the clipboard has happened.
\<close>

theorem no_content_aborts:
  assumes "active_process_allowed (str_lower b) (platform ss) (process_whitelist ss) (foreground ss)"
    and "polls ss \<noteq> []"
    and "\<forall>r \<in> set (polls ss). r = ([], None)"
  shows "fst (generate_image b cf ss c) = Returned msg_no_content \<and>
         trace (snd (generate_image b cf ss c)) =
           trace c @ [ClearClipboard, Sleep (5 / 1000)] @
           map Keys (cut_keys (platform ss) (cut_mode ss)) @
           concat (replicate (length (polls ss)) [ReadClipboard, Sleep (5 / 1000)]) \<and>
         filter composition_event (trace (snd (generate_image b cf ss c))) =
           filter composition_event (trace c)"
proof -
  from assms(3) have blank: "\<forall>r \<in> set (polls ss). \<not> has_content r"
    by (auto simp: has_content_def)
  from assms(2,3) have last: "last (polls ss) = ([], None)"
    by (metis last_in_set)
  have nokeys: "filter composition_event (map Keys ks) = []" for ks
    by (induction ks) simp_all
  have noreads: "filter composition_event (concat (replicate n [ReadClipboard, Sleep d])) = []" for n d
    by (induction n) simp_all
  show ?thesis
    using assms(1,2) last
    by (simp add: generate_image_def poll_clipboard_blank [OF blank] strip_def nokeys noreads)
qed

theorem no_content_aborts_witness:
  "fst (generate_image ok_backend demo_configs blank_session enabled_core) =
     Returned msg_no_content \<and>
   trace (snd (generate_image ok_backend demo_configs blank_session enabled_core)) =
     [ClearClipboard, Sleep (5 / 1000),
      Keys (Press Ctrl), Keys (Press (Char CHR ''x'')), Keys (Release (Char CHR ''x'')),
      Keys (Release Ctrl),
      ReadClipboard, Sleep (5 / 1000), ReadClipboard, Sleep (5 / 1000)]"
proof -
  have h1: "active_process_allowed (str_lower ok_backend) (platform blank_session)
      (process_whitelist blank_session) (foreground blank_session)"
    by (simp add: active_process_allowed_def blank_session_def)
  have h2: "polls blank_session \<noteq> []"
    by (simp add: blank_session_def)
  have h3: "\<forall>r \<in> set (polls blank_session). r = ([], None)"
    by (simp add: blank_session_def)
  have n: "replicate (Suc (Suc 0)) x = [x, x]" for x :: "event list"
    by simp
  show ?thesis
    using no_content_aborts [OF h1 h2 h3, of demo_configs enabled_core]
    by (simp add: blank_session_def enabled_core_def cut_keys_def n)
qed

text \<open>
  C10. When the foreground application is allowed and every reading of the polling loop is
  non-empty text of whitespace only, with no image, the loop takes every reading up to the
  deadline, the result is not the "no content" string, and the renderer is called with the
  whitespace text of the last reading and no image.
\<close>

theorem whitespace_text_is_composed:
  assumes "active_process_allowed (str_lower b) (platform ss) (process_whitelist ss) (foreground ss)"
    and "polls ss \<noteq> []"
    and "\<forall>r \<in> set (polls ss). fst r \<noteq> [] \<and> strip (fst r) = [] \<and> snd r = None"
  shows "fst (generate_image b cf ss c) \<noteq> Returned msg_no_content \<and>
         (\<exists>rest. trace (snd (generate_image b cf ss c)) =
            trace c @ [ClearClipboard, Sleep (5 / 1000)] @
            map Keys (cut_keys (platform ss) (cut_mode ss)) @
            concat (replicate (length (polls ss)) [ReadClipboard, Sleep (5 / 1000)]) @
            Compose (fst (last (polls ss))) None # rest)"
proof -
  from assms(3) have blank: "\<forall>r \<in> set (polls ss). \<not> has_content r"
    by (auto simp: has_content_def)
  from assms(2,3) have last: "fst (last (polls ss)) \<noteq> []" "strip (fst (last (polls ss))) = []"
    "snd (last (polls ss)) = None"
    by (simp_all add: last_in_set)
  obtain w where lp: "last (polls ss) = (w, None)" and t: "w \<noteq> []" "strip w = []"
    using last by (cases "last (polls ss)") auto
  show ?thesis
    using assms(1,2) lp t
    by (auto simp: generate_image_def poll_clipboard_blank [OF blank] finish_def messages_differ
        Let_def split: sum.splits)
qed

theorem whitespace_text_is_composed_witness:
  "fst (generate_image ok_backend demo_configs whitespace_session enabled_core) \<noteq>
     Returned msg_no_content \<and>
   Compose [32, 10] None \<in>
     set (trace (snd (generate_image ok_backend demo_configs whitespace_session enabled_core))) \<and>
   length (filter (\<lambda>ev. ev = ReadClipboard)
     (trace (snd (generate_image ok_backend demo_configs whitespace_session enabled_core)))) = 2"
proof -
  have h1: "active_process_allowed (str_lower ok_backend) (platform whitespace_session)
      (process_whitelist whitespace_session) (foreground whitespace_session)"
    by (simp add: active_process_allowed_def whitespace_session_def blank_session_def)
  have h2: "polls whitespace_session \<noteq> []"
    by (simp add: whitespace_session_def)
  have h3: "\<forall>r \<in> set (polls whitespace_session). fst r \<noteq> [] \<and> strip (fst r) = [] \<and> snd r = None"
    by (simp add: whitespace_session_def strip_def isspace_def)
  note t = whitespace_text_is_composed [OF h1 h2 h3, of demo_configs enabled_core]
  then obtain rest where
    tr: "trace (snd (generate_image ok_backend demo_configs whitespace_session enabled_core)) =
      trace enabled_core @ [ClearClipboard, Sleep (5 / 1000)] @
      map Keys (cut_keys (platform whitespace_session) (cut_mode whitespace_session)) @
      concat (replicate (length (polls whitespace_session)) [ReadClipboard, Sleep (5 / 1000)]) @
      Compose (fst (last (polls whitespace_session))) None # rest"
    by blast
  have m: "Compose [32, 10] None \<in>
     set (trace (snd (generate_image ok_backend demo_configs whitespace_session enabled_core)))"
    unfolding tr by (simp add: whitespace_session_def)
  have full: "trace (snd (generate_image ok_backend demo_configs whitespace_session enabled_core)) =
     [ClearClipboard, Sleep (5 / 1000),
      Keys (Press Ctrl), Keys (Press (Char CHR ''x'')), Keys (Release (Char CHR ''x'')),
      Keys (Release Ctrl),
      ReadClipboard, Sleep (5 / 1000), ReadClipboard, Sleep (5 / 1000),
      Compose [32, 10] None, CopyImage [66, 77], HasImage, Sleep (1 / 100), HasImage]"
    by (simp add: generate_image_def active_process_allowed_def whitespace_session_def
        blank_session_def enabled_core_def cut_keys_def emit_def has_content_def strip_def
        isspace_def sentiment_enabled_def finish_def Let_def)
  have n: "length (filter (\<lambda>ev. ev = ReadClipboard)
     (trace (snd (generate_image ok_backend demo_configs whitespace_session enabled_core)))) = 2"
    unfolding full by simp
  from t m n show ?thesis by blast
qed

subsection \<open>Initialization of the analyzer\<close>

text \<open>
  C1. What the code does when the handshake does not succeed. With a backend that connects
  and answers "ok", which holds no word of the emotion list, \<^verbatim>\<open>initialize\<close> returns the
  pair \<^verbatim>\<open>(False, "")\<close>; the core takes the pair for true, reports success, marks the analyzer
  initialized and leaves sentiment matching enabled, with nothing saved. The same happens
  when the connection test raises and \<^verbatim>\<open>initialize\<close> returns \<^verbatim>\<open>(False, error)\<close>.
\<close>

theorem failed_handshake_is_taken_for_success:
  "fst (initialize ok_backend (ascii ''ollama'') [(''model'', ascii ''qwen'')] new_analyzer) =
     PTuple [PBool False, PStr []] \<and>
   initialized (init_task ok_backend enabled_core) \<and>
   \<not> is_initialized (sentiment_analyzer (init_task ok_backend enabled_core)) \<and>
   sentiment_enabled (gui_settings (init_task ok_backend enabled_core)) \<and>
   saved_settings (init_task ok_backend enabled_core) = saved_settings enabled_core \<and>
   trace (init_task ok_backend enabled_core) =
     [Gui False False True, TestRequest (ascii ''qwen''), Request (ascii ''rules'') please_reply,
      Status msg_init_done, Gui True True False] \<and>
   fst (initialize unreachable_backend (ascii ''ollama'') [(''model'', ascii ''qwen'')] new_analyzer) =
     PTuple [PBool False, PExc (ascii ''Connection error.'')] \<and>
   initialized (init_task unreachable_backend enabled_core) \<and>
   sentiment_enabled (gui_settings (init_task unreachable_backend enabled_core)) \<and>
   trace (init_task unreachable_backend enabled_core) =
     [Gui False False True, TestRequest (ascii ''qwen''), Status msg_init_done,
      Gui True True False]"
  by (simp add: init_task_def initialize_def initialize_client_def test_connection_def
      send_request_def send_request_with_prompt_def ok_backend_def unreachable_backend_def
      enabled_core_def new_analyzer_def ollama_settings_def sentiment_enabled_def
      notify_gui_status_change_def update_status_def emit_def Let_def strip_def isspace_def
      lower_ascii_def calm_def happy_def ascii_def startswith_def)

subsection \<open>Choosing emotions by sentiment\<close>

lemma ascii_simps:
  "ascii ''ema'' = [101, 109, 97]" "ascii ''hiro'' = [104, 105, 114, 111]"
  "ascii ''coco'' = [99, 111, 99, 111]" "ascii ''hello'' = [104, 101, 108, 108, 111]"
  "ascii ''ollama'' = [111, 108, 108, 97, 109, 97]" "ascii ''Ema'' = [69, 109, 97]"
  by (simp_all add: ascii_def)

lemma classified_happy:
  "analyze_sentiment happy_backend (ascii ''hello'') (sentiment_analyzer ready_core) =
     (Some happy, (sentiment_analyzer ready_core)\<lparr>selected_emotion := Some happy\<rparr>,
      [Request (ascii ''rules'') (ascii ''hello'')])"
  by (simp add: analyze_sentiment_def send_request_with_prompt_def extract_emotion_def
      happy_backend_def ok_backend_def ready_core_def enabled_core_def new_analyzer_def
      happy_def calm_def strip_def isspace_def Let_def ascii_def)

lemma layers_eval:
  "sentiment_layers layer_configs happy (components ready_core) (False, [], 0) =
     ([(character_layer (ascii ''ema''))\<lparr>comp_emotion_index := Some 2, comp_force_use := Some True\<rparr>,
       character_layer (ascii ''hiro''), character_layer (ascii ''coco'')],
      ReturnedFalse, (True, emotion_info (ascii ''Ema'') happy 2, Suc 0))"
  by (simp add: ready_core_def enabled_core_def character_layer_def layer_configs_def
      ascii_simps happy_def Let_def)

lemma update_eval:
  assumes "initialized c" "sentiment_analyzer c = sentiment_analyzer ready_core"
    "components c = components ready_core" "base_msg c = []" "draws c = 0"
  shows "update_emotion_by_sentiment happy_backend layer_configs (ascii ''hello'') c =
     (False,
      c\<lparr>sentiment_analyzer := (sentiment_analyzer ready_core)\<lparr>selected_emotion := Some happy\<rparr>,
        components :=
           [(character_layer (ascii ''ema''))\<lparr>comp_emotion_index := Some 2,
                                               comp_force_use := Some True\<rparr>,
            character_layer (ascii ''hiro''), character_layer (ascii ''coco'')],
        base_msg := emotion_info (ascii ''Ema'') happy 2,
        draws := 1,
        trace := trace c @ [Request (ascii ''rules'') (ascii ''hello'')]\<rparr>)"
proof -
  have h: "happy \<noteq> []"
    by (simp add: happy_def)
  show ?thesis
    using layers_eval assms
    by (simp add: update_emotion_by_sentiment_def classified_happy h emit_def)
qed

text \<open>
  C3. What the code does with three enabled character layers when the filter of the second
  yields no emotion: the first layer gets emotion 2 and \<^verbatim>\<open>force_use\<close>, the function then
  returns \<^verbatim>\<open>False\<close> at the second layer, the third layer is not updated although emotion
  1 matches for it, and \<^verbatim>\<open>generate_image\<close> goes on to compose without recomputing the
  preview. One classification request is made.
\<close>

theorem early_return_skips_layers_and_preview:
  "fst (update_emotion_by_sentiment happy_backend layer_configs (ascii ''hello'') ready_core) =
     False \<and>
   components (snd (update_emotion_by_sentiment happy_backend layer_configs (ascii ''hello'')
       ready_core)) =
     [(character_layer (ascii ''ema''))\<lparr>comp_emotion_index := Some 2, comp_force_use := Some True\<rparr>,
      character_layer (ascii ''hiro''), character_layer (ascii ''coco'')] \<and>
   trace (snd (generate_image happy_backend layer_configs hello_session ready_core)) =
     [ClearClipboard, Sleep (5 / 1000),
      Keys (Press Ctrl), Keys (Press (Char CHR ''x'')), Keys (Release (Char CHR ''x'')),
      Keys (Release Ctrl),
      ReadClipboard, Request (ascii ''rules'') (ascii ''hello''),
      Compose (ascii ''hello'') None, CopyImage [66, 77], HasImage, Sleep (1 / 100), HasImage]"
proof -
  have r: "initialized ready_core" "base_msg ready_core = []" "draws ready_core = 0"
    "trace ready_core = []" "sentiment_enabled (gui_settings ready_core)"
    by (simp_all add: ready_core_def enabled_core_def sentiment_enabled_def ollama_settings_def)
  have s: "strip (ascii ''hello'') \<noteq> []" "ascii ''hello'' \<noteq> []"
    by (simp_all add: strip_def isspace_def ascii_def)
  have u: "update_emotion_by_sentiment happy_backend layer_configs (ascii ''hello'')
       (ready_core\<lparr>base_msg := [], trace := evs\<rparr>) =
     (False,
      (ready_core\<lparr>base_msg := [], trace := evs\<rparr>)
       \<lparr>sentiment_analyzer := (sentiment_analyzer ready_core)\<lparr>selected_emotion := Some happy\<rparr>,
        components :=
           [(character_layer (ascii ''ema''))\<lparr>comp_emotion_index := Some 2,
                                               comp_force_use := Some True\<rparr>,
            character_layer (ascii ''hiro''), character_layer (ascii ''coco'')],
        base_msg := emotion_info (ascii ''Ema'') happy 2,
        draws := 1,
        trace := trace (ready_core\<lparr>base_msg := [], trace := evs\<rparr>) @
                 [Request (ascii ''rules'') (ascii ''hello'')]\<rparr>)" for evs
    by (rule update_eval) (simp_all add: r)
  have g: "trace (snd (generate_image happy_backend layer_configs hello_session ready_core)) =
     [ClearClipboard, Sleep (5 / 1000),
      Keys (Press Ctrl), Keys (Press (Char CHR ''x'')), Keys (Release (Char CHR ''x'')),
      Keys (Release Ctrl),
      ReadClipboard, Request (ascii ''rules'') (ascii ''hello''),
      Compose (ascii ''hello'') None, CopyImage [66, 77], HasImage, Sleep (1 / 100), HasImage]"
    by (simp add: generate_image_def active_process_allowed_def hello_session_def
        blank_session_def cut_keys_def has_content_def s r u emit_def finish_def Let_def)
  show ?thesis
    using update_eval [of ready_core] r g by simp
qed

subsection \<open>The preload scheduler\<close>

lemma loads_append [simp]: "loads (xs @ ys) = loads xs @ loads ys"
  by (induction xs rule: loads.induct) simp_all

lemma submitter_step_names:
  "names_of (submitter_step s) \<subseteq> names_of s \<and>
   (\<exists>rs. reports (submitter_step s) = reports s @ rs \<and> loads rs = []) \<and>
   cache (submitter_step s) = cache s"
  by (auto simp: submitter_step_def names_of_def preload_update_status_def
      split: sstate.splits list.splits)

lemma worker_step_names:
  "names_of (worker_step e pc s) \<subseteq> names_of s \<and>
   (\<exists>rs. reports (worker_step e pc s) = reports s @ rs \<and> fst ` set (loads rs) \<subseteq> names_of s)"
  by (auto simp: worker_step_def names_of_def preload_update_status_def Let_def
      split: wstate.splits list.splits option.splits sum.splits prod.splits)

lemma step_names:
  "names_of (step e pc a s) \<subseteq> names_of s \<and>
   (\<exists>rs. reports (step e pc a s) = reports s @ rs \<and> fst ` set (loads rs) \<subseteq> names_of s)"
proof (cases a)
  case Submitter
  then show ?thesis using submitter_step_names [of s] by auto
next
  case Worker
  then show ?thesis using worker_step_names [of e pc s] by auto
qed

lemma run_names:
  "names_of (run e pc sched s) \<subseteq> names_of s \<and>
   (\<exists>rs. reports (run e pc sched s) = reports s @ rs \<and> fst ` set (loads rs) \<subseteq> names_of s)"
proof (induction sched arbitrary: s)
  case Nil
  show ?case by simp
next
  case (Cons a sched)
  obtain r1 where 1: "names_of (step e pc a s) \<subseteq> names_of s"
    "reports (step e pc a s) = reports s @ r1" "fst ` set (loads r1) \<subseteq> names_of s"
    using step_names [of e pc a s] by blast
  obtain r2 where 2: "names_of (run e pc sched (step e pc a s)) \<subseteq> names_of (step e pc a s)"
    "reports (run e pc sched (step e pc a s)) = reports (step e pc a s) @ r2"
    "fst ` set (loads r2) \<subseteq> names_of (step e pc a s)"
    using Cons.IH [of "step e pc a s"] by blast
  have "reports (run e pc (a # sched) s) = reports s @ (r1 @ r2)"
    using 1 2 by simp
  moreover have "fst ` set (loads (r1 @ r2)) \<subseteq> names_of s"
    using 1 2 by auto
  moreover have "names_of (run e pc (a # sched) s) \<subseteq> names_of s"
    using 1 2 by auto
  ultimately show ?case by blast
qed

lemma cache_kept_refl: "valid_refs st \<Longrightarrow> cache_kept st st"
  by (simp add: cache_kept_def)

lemma cache_kept_trans: "cache_kept st st1 \<Longrightarrow> cache_kept st1 st2 \<Longrightarrow> cache_kept st st2"
  unfolding cache_kept_def by (intro conjI allI impI; (simp; fail | metis))

lemma valid_refs_lt:
  assumes "valid_refs st"
  shows "font_cache st k = Some a \<Longrightarrow> a < length (heap st)"
    "background_cache st k = Some a \<Longrightarrow> a < length (heap st)"
    "character_cache st k = Some a \<Longrightarrow> a < length (heap st)"
    "general_image_cache st k = Some a \<Longrightarrow> a < length (heap st)"
  using assms by (auto simp: valid_refs_def masters_def ran_def)

lemma load_character_safe_kept:
  assumes "valid_refs st" "load_character_safe e c i sz col st = (r, st')"
  shows "cache_kept st st'"
proof (cases r)
  case (Inl err)
  with assms have "st' = st"
    by (auto simp: load_character_safe_def Let_def alloc_def copy_obj_def
        split: option.splits if_splits sum.splits error.splits prod.splits)
  with assms(1) show ?thesis by (simp add: cache_kept_refl)
next
  case (Inr a)
  with assms have f: "fresh_result st a st'"
    by (simp add: load_character_safe_fresh)
  note lt = valid_refs_lt [OF assms(1)]
  show ?thesis
  proof (cases "character_cache st (rsplit_dot_head (get_character_path e c i))")
    case None
    with assms Inr f lt show ?thesis
      unfolding cache_kept_def fresh_result_def
      by (auto simp: load_character_safe_def Let_def alloc_def copy_obj_def nth_append
        split: if_splits sum.splits error.splits)
  next
    case (Some m)
    with assms Inr f lt show ?thesis
      unfolding cache_kept_def fresh_result_def
      by (auto simp: load_character_safe_def Let_def alloc_def copy_obj_def nth_append)
  qed
qed

lemma step_cache_kept:
  assumes "valid_refs (cache s)"
  shows "cache_kept (cache s) (cache (step e pc a s))"
proof (cases a)
  case Submitter
  with assms show ?thesis
    using submitter_step_names [of s] by (simp add: cache_kept_refl)
next
  case Worker
  show ?thesis
  proof (cases "worker s")
    case (Loading c i n)
    obtain r st where l: "load_character_safe e c i default_size character_default_color (cache s) = (r, st)"
      by (cases "load_character_safe e c i default_size character_default_color (cache s)")
    from assms l have "cache_kept (cache s) st"
      by (rule load_character_safe_kept)
    with assms Worker Loading l show ?thesis
      by (cases r) (auto simp: worker_step_def preload_update_status_def cache_kept_refl)
  qed (use assms Worker in \<open>auto simp: worker_step_def preload_update_status_def cache_kept_refl Let_def
      split: list.splits option.splits\<close>)
qed

lemma run_cache_kept:
  "valid_refs (cache s) \<Longrightarrow> cache_kept (cache s) (cache (run e pc sched s))"
proof (induction sched arbitrary: s)
  case Nil
  then show ?case by (simp add: cache_kept_refl)
next
  case (Cons a sched)
  have 1: "cache_kept (cache s) (cache (step e pc a s))"
    using Cons.prems by (rule step_cache_kept)
  then have "valid_refs (cache (step e pc a s))"
    by (simp add: cache_kept_def)
  then have "cache_kept (cache (step e pc a s)) (cache (run e pc sched (step e pc a s)))"
    by (rule Cons.IH)
  with 1 show ?case
    by (auto intro: cache_kept_trans)
qed

lemma worker_load_needs_empty_queue:
  assumes "reports (worker_step e pc s) = reports s @ rs" "loads rs \<noteq> []"
  shows "task_queue s = [] \<and> (\<exists>c i n. worker s = Loading c i n \<and> i \<le> n \<and> loads rs = [(c, i)])"
  using assms
  by (auto simp: worker_step_def preload_update_status_def Let_def
      split: wstate.splits list.splits option.splits sum.splits prod.splits if_splits)

lemma cache_kept_character:
  "cache_kept st st' \<Longrightarrow> character_cache st k = Some a \<Longrightarrow>
   character_cache st' k = Some a \<and> heap st' ! a = heap st ! a"
  by (simp add: cache_kept_def)

lemma chara_paths:
  "get_character_path chara_disk (ascii ''ema'') 1 = ascii ''assets/chara/ema/ema (1).png''"
  "get_character_path chara_disk (ascii ''ema'') 2 = ascii ''assets/chara/ema/ema (2).png''"
  "get_character_path chara_disk (ascii ''coco'') 1 = ascii ''assets/chara/coco/coco (1).png''"
  by (simp_all add: get_character_path_def get_image_path_def supported_formats_def
      format_path_def path_exists_def chara_disk_def empty_disk_def ascii_def str_int_def
      digits.simps)

lemma chara_keys:
  "rsplit_dot_head (ascii ''assets/chara/ema/ema (1).png'') = ascii ''assets/chara/ema/ema (1)''"
  "rsplit_dot_head (ascii ''assets/chara/ema/ema (2).png'') = ascii ''assets/chara/ema/ema (2)''"
  "rsplit_dot_head (ascii ''assets/chara/coco/coco (1).png'') = ascii ''assets/chara/coco/coco (1)''"
  by (simp_all add: rsplit_dot_head_def ascii_def)

lemma chara_open:
  "image_open chara_disk (ascii ''assets/chara/ema/ema (1).png'') = Inr picture"
  "image_open chara_disk (ascii ''assets/chara/coco/coco (1).png'') = Inr picture"
  "path_exists chara_disk (ascii ''assets/chara/ema/ema (1).png'')"
  "path_exists chara_disk (ascii ''assets/chara/coco/coco (1).png'')"
  "character_scale chara_disk = 1"
  by (simp_all add: image_open_def path_exists_def chara_disk_def empty_disk_def ascii_def)

lemma load_ema_1:
  "load_character_safe chara_disk (ascii ''ema'') 1 default_size character_default_color no_caches =
     (Inr 1, ema_cached)"
  by (simp add: load_character_safe_def chara_paths chara_keys chara_open no_caches_def
      ema_cached_def alloc_def copy_obj_def)

lemma ema_coco_distinct [simp]: "ascii ''ema'' \<noteq> ascii ''coco''" "ascii ''coco'' \<noteq> ascii ''ema''"
  by (simp_all add: ascii_def)

lemma reach_superseding:
  "run chara_disk preload_on [Submitter, Submitter, Submitter, Submitter, Submitter] preload_start =
     superseding"
  by (simp add: submitter_step_def preload_start_def superseding_def preload_update_status_def)

lemma reach_interrupting:
  "run chara_disk preload_on
     [Submitter, Submitter, Submitter, Worker, Worker, Worker, Submitter, Submitter, Submitter]
     preload_start = interrupting"
  by (simp add: submitter_step_def worker_step_def preload_start_def interrupting_def preload_update_status_def
      preload_on_def load_ema_1 Let_def)

text \<open>
  C6. (1) When the submitter, in a call for \<open>B\<close>, reaches \<^verbatim>\<open>get_nowait\<close> while \<open>A\<close> is
  still in the queue, the step takes \<open>A\<close> out of the queue without any report, and in every
  continuation every load is a load for \<open>B\<close>, or for the character the worker had in hand
  already (none when it waits): \<open>A\<close> is never started. (2) When the worker is in
  the loop for \<open>A\<close> and finds a task in the queue, its next step ends the task without a
  load and without touching the caches, and in every continuation every load is for a
  character queued or submitted, not a resumption of \<open>A\<close>. (3) A worker step loads only if
  the queue was empty at that step: the test comes before each emotion. (4) In every run
  every cache entry stays, with the same object.
\<close>

theorem preload_supersession:
  "(submitter s = Getting B \<and> task_queue s = [A] \<and> calls s = [] \<longrightarrow>
      task_queue (step e pc Submitter s) = [] \<and>
      reports (step e pc Submitter s) = reports s \<and>
      (\<exists>rs. reports (run e pc (Submitter # sched) s) = reports s @ rs \<and>
            fst ` set (loads rs) \<subseteq> insert B (working_on (worker s)))) \<and>
   (worker s = Loading A i n \<and> task_queue s \<noteq> [] \<longrightarrow>
      worker (step e pc Worker s) = Waiting \<and>
      cache (step e pc Worker s) = cache s \<and>
      (\<exists>rs. reports (run e pc (Worker # sched) s) = reports s @ rs \<and>
            fst ` set (loads rs) \<subseteq>
              set (task_queue s) \<union> submitting (submitter s) \<union> set (calls s))) \<and>
   (loads (drop (length (reports s)) (reports (step e pc Worker s))) \<noteq> [] \<longrightarrow>
      task_queue s = []) \<and>
   (valid_refs (cache s) \<longrightarrow> cache_kept (cache s) (cache (run e pc sched s)))"
proof (intro conjI impI)
  assume h: "submitter s = Getting B \<and> task_queue s = [A] \<and> calls s = []"
  let ?s1 = "step e pc Submitter s"
  from h show "task_queue ?s1 = []" and "reports ?s1 = reports s"
    by (simp_all add: submitter_step_def)
  from h have n: "names_of ?s1 = insert B (working_on (worker s))"
    and r: "reports ?s1 = reports s"
    by (simp_all add: submitter_step_def names_of_def)
  from run_names [of e pc sched ?s1] n r
  show "\<exists>rs. reports (run e pc (Submitter # sched) s) = reports s @ rs \<and>
            fst ` set (loads rs) \<subseteq> insert B (working_on (worker s))"
    by simp
next
  assume h: "worker s = Loading A i n \<and> task_queue s \<noteq> []"
  let ?s1 = "step e pc Worker s"
  from h show "worker ?s1 = Waiting" and "cache ?s1 = cache s"
    by (simp_all add: worker_step_def preload_update_status_def)
  from h have n: "names_of ?s1 = set (task_queue s) \<union> submitting (submitter s) \<union> set (calls s)"
    by (auto simp: worker_step_def preload_update_status_def names_of_def)
  define r1 where "r1 = (if n < i then [Finished A] else [Interrupted A])"
  from h have r1: "reports ?s1 = reports s @ r1" "loads r1 = []"
    by (simp_all add: worker_step_def preload_update_status_def r1_def)
  obtain r2 where r2: "reports (run e pc sched ?s1) = reports ?s1 @ r2"
    "fst ` set (loads r2) \<subseteq> names_of ?s1"
    using run_names [of e pc sched ?s1] by blast
  have "reports (run e pc (Worker # sched) s) = reports s @ (r1 @ r2)"
    using r1 r2 by simp
  moreover have "fst ` set (loads (r1 @ r2)) \<subseteq>
      set (task_queue s) \<union> submitting (submitter s) \<union> set (calls s)"
    using r1 r2 n by simp
  ultimately show "\<exists>rs. reports (run e pc (Worker # sched) s) = reports s @ rs \<and>
      fst ` set (loads rs) \<subseteq> set (task_queue s) \<union> submitting (submitter s) \<union> set (calls s)"
    by blast
next
  assume h: "loads (drop (length (reports s)) (reports (step e pc Worker s))) \<noteq> []"
  obtain rs where rs: "reports (worker_step e pc s) = reports s @ rs"
    using worker_step_names [of e pc s] by blast
  with h have "loads rs \<noteq> []" by simp
  with rs show "task_queue s = []"
    using worker_load_needs_empty_queue by blast
next
  assume "valid_refs (cache s)"
  then show "cache_kept (cache s) (cache (run e pc sched s))"
    by (rule run_cache_kept)
qed

theorem preload_supersession_witness:
  "run chara_disk preload_on [Submitter, Submitter, Submitter, Submitter, Submitter] preload_start =
     superseding \<and>
   task_queue (step chara_disk preload_on Submitter superseding) = [] \<and>
   reports (step chara_disk preload_on Submitter superseding) = [Submitted (ascii ''ema'')] \<and>
   fst ` set (loads (drop 1 (reports (run chara_disk preload_on
       [Submitter, Submitter, Submitter, Worker, Worker, Worker, Worker] superseding)))) \<subseteq>
     {ascii ''coco''} \<and>
   run chara_disk preload_on
     [Submitter, Submitter, Submitter, Worker, Worker, Worker, Submitter, Submitter, Submitter]
     preload_start = interrupting \<and>
   worker (step chara_disk preload_on Worker interrupting) = Waiting \<and>
   cache (step chara_disk preload_on Worker interrupting) = ema_cached \<and>
   fst ` set (loads (drop 5 (reports (run chara_disk preload_on
       [Worker, Worker, Worker, Worker, Worker] interrupting)))) \<subseteq> {ascii ''coco''} \<and>
   character_cache (cache (run chara_disk preload_on [Worker, Worker, Worker, Worker, Worker]
       interrupting)) (ascii ''assets/chara/ema/ema (1)'') = Some 0 \<and>
   heap (cache (run chara_disk preload_on [Worker, Worker, Worker, Worker, Worker] interrupting)) ! 0 =
     ImageObj picture"
proof -
  let ?S = "[Submitter, Submitter, Worker, Worker, Worker, Worker]"
  let ?W = "[Worker, Worker, Worker, Worker]"
  let ?ra = "run chara_disk preload_on (Submitter # ?S) superseding"
  let ?rb = "run chara_disk preload_on (Worker # ?W) interrupting"
  have a: "submitter superseding = Getting (ascii ''coco'') \<and>
      task_queue superseding = [ascii ''ema''] \<and> calls superseding = []"
    by (simp add: superseding_def preload_start_def)
  have ra: "reports superseding = [Submitted (ascii ''ema'')]"
    and wa: "insert (ascii ''coco'') (working_on (worker superseding)) = {ascii ''coco''}"
    by (simp_all add: superseding_def preload_start_def)
  note t1 = preload_supersession [where s = superseding and B = "ascii ''coco''"
      and A = "ascii ''ema''" and e = chara_disk and pc = preload_on and sched = ?S,
      THEN conjunct1, THEN mp, OF a]
  have a1: "task_queue (step chara_disk preload_on Submitter superseding) = []"
    using t1 by (rule conjunct1)
  have a2: "reports (step chara_disk preload_on Submitter superseding) = [Submitted (ascii ''ema'')]"
    using t1 [THEN conjunct2, THEN conjunct1] ra by (rule trans)
  obtain rs where rs: "reports ?ra = reports superseding @ rs"
    "fst ` set (loads rs) \<subseteq> insert (ascii ''coco'') (working_on (worker superseding))"
    using t1 [THEN conjunct2, THEN conjunct2] by (elim exE conjE)
  have "drop 1 (reports ?ra) = rs"
    unfolding rs(1) ra by simp
  then have a3: "fst ` set (loads (drop 1 (reports ?ra))) \<subseteq> {ascii ''coco''}"
    using rs(2) unfolding wa by (simp only:)
  have b: "worker interrupting = Loading (ascii ''ema'') 2 2 \<and> task_queue interrupting \<noteq> []"
    by (simp add: interrupting_def)
  have rb: "length (reports interrupting) = 5" "cache interrupting = ema_cached"
    "set (task_queue interrupting) \<union> submitting (submitter interrupting) \<union>
       set (calls interrupting) = {ascii ''coco''}"
    by (simp_all add: interrupting_def)
  have v: "valid_refs (cache interrupting)"
    by (simp add: rb valid_refs_def masters_def ema_cached_def)
  note t2 = preload_supersession [where s = interrupting and A = "ascii ''ema''" and i = 2
      and n = 2 and e = chara_disk and pc = preload_on and sched = ?W,
      THEN conjunct2, THEN conjunct1, THEN mp, OF b]
  have b1: "worker (step chara_disk preload_on Worker interrupting) = Waiting"
    using t2 by (rule conjunct1)
  have b2: "cache (step chara_disk preload_on Worker interrupting) = ema_cached"
    using t2 [THEN conjunct2, THEN conjunct1] rb(2) by (rule trans)
  obtain rs2 where rs2: "reports ?rb = reports interrupting @ rs2"
    "fst ` set (loads rs2) \<subseteq> set (task_queue interrupting) \<union>
       submitting (submitter interrupting) \<union> set (calls interrupting)"
    using t2 [THEN conjunct2, THEN conjunct2] by (elim exE conjE)
  have "drop 5 (reports ?rb) = rs2"
    unfolding rs2(1) using rb(1) by simp
  then have b3: "fst ` set (loads (drop 5 (reports ?rb))) \<subseteq> {ascii ''coco''}"
    using rs2(2) unfolding rb(3) by (simp only:)
  note t3 = preload_supersession [where s = interrupting and e = chara_disk and pc = preload_on
      and sched = "Worker # ?W", THEN conjunct2, THEN conjunct2, THEN conjunct2, THEN mp, OF v]
  have k: "cache_kept ema_cached (cache ?rb)"
    using t3 unfolding rb(2) .
  have c0: "character_cache ema_cached (ascii ''assets/chara/ema/ema (1)'') = Some 0"
    "heap ema_cached ! 0 = ImageObj picture"
    by (simp_all add: ema_cached_def)
  note kc = cache_kept_character [OF k c0(1)]
  have b4: "character_cache (cache ?rb) (ascii ''assets/chara/ema/ema (1)'') = Some 0"
    using kc by (rule conjunct1)
  have b5: "heap (cache ?rb) ! 0 = ImageObj picture"
    using kc [THEN conjunct2] c0(2) by (rule trans)
  show ?thesis
    by (intro conjI reach_superseding a1 a2 a3 reach_interrupting b1 b2 b3 b4 b5)
qed

end
